theory Spec2Isabelle
  imports Complex_Main
begin

section \<open>Core types (packages/core/src/types.ts)\<close>

text \<open>
  A TypeScript \<^verbatim>\<open>number\<close> is an IEEE double. The B\'ezier functions are modelled over
  the real numbers: coordinates and parameters are finite and every operation is exact
  (rounding and overflow of doubles are not represented). The record is polymorphic in the
  coordinate type because the path parser stores values that may be \<^verbatim>\<open>NaN\<close>.
\<close>

record 'a Point =
  x :: 'a
  y :: 'a

record 'a CubicBezierCurve =
  start :: "'a Point"
  control1 :: "'a Point"
  control2 :: "'a Point"
  endp :: "'a Point"

text \<open>
  \<^verbatim>\<open>end\<close> is a keyword of Isabelle, so the field is \<open>endp\<close>; the fields of the quadratic
  curve that share a name with the cubic's carry a \<open>q\<close>.
\<close>

record 'a QuadraticBezierCurve =
  qstart :: "'a Point"
  control :: "'a Point"
  qendp :: "'a Point"

text \<open>
  \<^verbatim>\<open>type BezierCurve = CubicBezierCurve | QuadraticBezierCurve\<close>; the source tells the two
  apart with \<^verbatim>\<open>'control1' in curve\<close>, the model with the constructor.
\<close>

datatype 'a BezierCurve = Cubic "'a CubicBezierCurve" | Quadratic "'a QuadraticBezierCurve"

text \<open>
  The only exception the modelled code can raise: reading a property of \<^verbatim>\<open>undefined\<close>.
\<close>

datatype error = TypeError

section \<open>B\'ezier evaluation and subdivision (packages/core/src/bezier.ts)\<close>

text \<open>
  \<^verbatim>\<open>cubicBezierPoint\<close>, \<^verbatim>\<open>quadraticBezierPoint\<close> and \<^verbatim>\<open>bezierPoint\<close>: the Bernstein form,
  evaluated at the parameter as it is given. Coordinates, parameters and lengths of this
  section are real numbers: sums, products and square roots are exact, where the program
  rounds each of them to a double. What is proved below of points and arc lengths is
  therefore proved of the exact values.
\<close>

definition cubicBezierPoint :: "real CubicBezierCurve \<Rightarrow> real \<Rightarrow> real Point" where
  "cubicBezierPoint curve t =
     (let mt = 1 - t;
          x' = mt * mt * mt * x (start curve) +
               3 * mt * mt * t * x (control1 curve) +
               3 * mt * t * t * x (control2 curve) +
               t * t * t * x (endp curve);
          y' = mt * mt * mt * y (start curve) +
               3 * mt * mt * t * y (control1 curve) +
               3 * mt * t * t * y (control2 curve) +
               t * t * t * y (endp curve)
      in \<lparr>x = x', y = y'\<rparr>)"

definition quadraticBezierPoint :: "real QuadraticBezierCurve \<Rightarrow> real \<Rightarrow> real Point" where
  "quadraticBezierPoint curve t =
     (let mt = 1 - t;
          x' = mt * mt * x (qstart curve) + 2 * mt * t * x (control curve) + t * t * x (qendp curve);
          y' = mt * mt * y (qstart curve) + 2 * mt * t * y (control curve) + t * t * y (qendp curve)
      in \<lparr>x = x', y = y'\<rparr>)"

fun bezierPoint :: "real BezierCurve \<Rightarrow> real \<Rightarrow> real Point" where
  "bezierPoint (Cubic curve) t = cubicBezierPoint curve t"
| "bezierPoint (Quadratic curve) t = quadraticBezierPoint curve t"



text \<open>
  \<^verbatim>\<open>splitCubicBezier\<close>, with the points \<open>p1\<close> to \<open>p5\<close> and the two curves as the source
  builds them.
\<close>

definition splitCubicBezier ::
  "real CubicBezierCurve \<Rightarrow> real \<Rightarrow> real CubicBezierCurve \<times> real CubicBezierCurve" where
  "splitCubicBezier curve t =
     (let mt = 1 - t;
          p1 = \<lparr>x = mt * x (start curve) + t * x (control1 curve),
                y = mt * y (start curve) + t * y (control1 curve)\<rparr>;
          p2 = \<lparr>x = mt * x (control1 curve) + t * x (control2 curve),
                y = mt * y (control1 curve) + t * y (control2 curve)\<rparr>;
          p3 = \<lparr>x = mt * x (control2 curve) + t * x (endp curve),
                y = mt * y (control2 curve) + t * y (endp curve)\<rparr>;
          p4 = \<lparr>x = mt * x p2 + t * x p3, y = mt * y p2 + t * y p3\<rparr>;
          p5 = \<lparr>x = mt * x p3 + t * x (endp curve), y = mt * y p3 + t * y (endp curve)\<rparr>;
          firstCurve = \<lparr>start = start curve, control1 = p1, control2 = p4, endp = p5\<rparr>;
          secondCurve = \<lparr>start = p5, control1 = p3, control2 = p2, endp = endp curve\<rparr>
      in (firstCurve, secondCurve))"

subsection \<open>Arc length\<close>

text \<open>
  \<^verbatim>\<open>Math.sqrt(dx * dx + dy * dy)\<close> of two points, written inline in each loop of the source.
\<close>

definition chord :: "real Point \<Rightarrow> real Point \<Rightarrow> real" where
  "chord p1 p2 = (let dx = x p2 - x p1; dy = y p2 - y p1 in sqrt (dx * dx + dy * dy))"

text \<open>
  \<^verbatim>\<open>for (let i = 0; i < samples; i++)\<close>: \<open>samples\<close> is a number, the index counts 0, 1, 2, ...
  and the loop runs while it is below \<open>samples\<close>; \<open>len\<close> is the variable \<^verbatim>\<open>length\<close>. When
  \<open>samples\<close> is not positive the loop body never runs and \<open>dt\<close> is not used. The index stays
  below the number of iterations, which gives termination.
\<close>

lemma loop_index_below: "real i < samples \<Longrightarrow> i < nat \<lceil>samples\<rceil>"
  by linarith

function cubicArcLoop :: "real CubicBezierCurve \<Rightarrow> real \<Rightarrow> real \<Rightarrow> nat \<Rightarrow> real \<Rightarrow> real" where
  "cubicArcLoop curve samples dt i len =
     (if real i < samples then
        (let t1 = real i * dt;
             t2 = (real i + 1) * dt;
             p1 = cubicBezierPoint curve t1;
             p2 = cubicBezierPoint curve t2
         in cubicArcLoop curve samples dt (i + 1) (len + chord p1 p2))
      else len)"
  by pat_completeness auto
termination
  by (relation "measure (\<lambda>(curve, samples, dt, i, len). nat \<lceil>samples\<rceil> - i)")
     (auto dest: loop_index_below)

declare cubicArcLoop.simps [simp del]

definition cubicBezierArcLength :: "real CubicBezierCurve \<Rightarrow> real \<Rightarrow> real" where
  "cubicBezierArcLength curve samples = (let dt = 1 / samples in cubicArcLoop curve samples dt 0 0)"

function quadraticArcLoop :: "real QuadraticBezierCurve \<Rightarrow> real \<Rightarrow> real \<Rightarrow> nat \<Rightarrow> real \<Rightarrow> real" where
  "quadraticArcLoop curve samples dt i len =
     (if real i < samples then
        (let t1 = real i * dt;
             t2 = (real i + 1) * dt;
             p1 = quadraticBezierPoint curve t1;
             p2 = quadraticBezierPoint curve t2
         in quadraticArcLoop curve samples dt (i + 1) (len + chord p1 p2))
      else len)"
  by pat_completeness auto
termination
  by (relation "measure (\<lambda>(curve, samples, dt, i, len). nat \<lceil>samples\<rceil> - i)")
     (auto dest: loop_index_below)

declare quadraticArcLoop.simps [simp del]

definition quadraticBezierArcLength :: "real QuadraticBezierCurve \<Rightarrow> real \<Rightarrow> real" where
  "quadraticBezierArcLength curve samples = (let dt = 1 / samples in quadraticArcLoop curve samples dt 0 0)"

fun bezierArcLength :: "real BezierCurve \<Rightarrow> real \<Rightarrow> real" where
  "bezierArcLength (Cubic curve) samples = cubicBezierArcLength curve samples"
| "bezierArcLength (Quadratic curve) samples = quadraticBezierArcLength curve samples"

subsection \<open>Look-up table\<close>

text \<open>
  The fields \<^verbatim>\<open>t\<close>, \<^verbatim>\<open>point\<close> and \<^verbatim>\<open>length\<close> of an entry carry the prefix \<open>lut_\<close>.
\<close>

record LUTEntry =
  lut_t :: real
  lut_point :: "real Point"
  lut_length :: real

record PathLUT =
  entries :: "LUTEntry list"
  totalLength :: real
  resolution :: real

text \<open>
  The loop of \<^verbatim>\<open>createBezierLUT\<close>, \<^verbatim>\<open>for (let i = 0; i <= numSamples; i++)\<close>, on its state: the
  entries pushed so far and \<^verbatim>\<open>totalLength\<close>. \<open>numSamples\<close> is
  \<^verbatim>\<open>Math.max(10, Math.ceil(bezierArcLength(curve) * resolution))\<close>, an integer of at least 10;
  \<^verbatim>\<open>bezierArcLength(curve)\<close> uses the default of 10 samples.
\<close>

function lutLoop ::
  "real BezierCurve \<Rightarrow> int \<Rightarrow> real \<Rightarrow> int \<Rightarrow> LUTEntry list \<Rightarrow> real \<Rightarrow> LUTEntry list \<times> real" where
  "lutLoop curve numSamples dt i es totalLen =
     (if i \<le> numSamples then
        (let t = of_int i * dt;
             point = bezierPoint curve t;
             es' = es @ [\<lparr>lut_t = t, lut_point = point, lut_length = totalLen\<rparr>];
             totalLen' = (if i < numSamples then
                         (let nextPoint = bezierPoint curve ((of_int i + 1) * dt)
                          in totalLen + chord point nextPoint)
                       else totalLen)
         in lutLoop curve numSamples dt (i + 1) es' totalLen')
      else (es, totalLen))"
  by pat_completeness auto
termination
  by (relation "measure (\<lambda>(curve, numSamples, dt, i, es, totalLen). nat (numSamples + 1 - i))") auto

declare lutLoop.simps [simp del]

definition createBezierLUT :: "real BezierCurve \<Rightarrow> real \<Rightarrow> PathLUT" where
  "createBezierLUT curve res =
     (let numSamples = max 10 \<lceil>bezierArcLength curve 10 * res\<rceil>;
          dt = 1 / of_int numSamples;
          (es, totalLen) = lutLoop curve numSamples dt 0 [] 0
      in \<lparr>entries = es, totalLength = totalLen, resolution = res\<rparr>)"

text \<open>
  \<^verbatim>\<open>lut.entries[i]\<close> for an integer index: \<open>None\<close> is \<^verbatim>\<open>undefined\<close>, out of range. In the
  binary search, \<^verbatim>\<open>entry.length\<close> of an undefined entry would raise a TypeError; after
  the search, an undefined \<^verbatim>\<open>entry1\<close> or \<^verbatim>\<open>entry2\<close> makes the function return 0.
\<close>

definition entryAt :: "LUTEntry list \<Rightarrow> int \<Rightarrow> LUTEntry option" where
  "entryAt es i = (if 0 \<le> i \<and> i < int (length es) then Some (es ! nat i) else None)"

function searchLoop :: "LUTEntry list \<Rightarrow> real \<Rightarrow> int \<Rightarrow> int \<Rightarrow> error + int" where
  "searchLoop es targetLength left right =
     (if left < right then
        (let mid = (left + right) div 2
         in case entryAt es mid of
              None \<Rightarrow> Inl TypeError
            | Some entry \<Rightarrow>
                if lut_length entry < targetLength
                then searchLoop es targetLength (mid + 1) right
                else searchLoop es targetLength left mid)
      else Inr left)"
  by pat_completeness auto
termination
  by (relation "measure (\<lambda>(es, targetLength, left, right). nat (right - left))") auto

declare searchLoop.simps [simp del]

definition lengthToParameter :: "PathLUT \<Rightarrow> real \<Rightarrow> error + real" where
  "lengthToParameter lut targetLength =
     (if targetLength \<le> 0 then Inr 0
      else if targetLength \<ge> totalLength lut then Inr 1
      else case searchLoop (entries lut) targetLength 0 (int (length (entries lut)) - 1) of
             Inl e \<Rightarrow> Inl e
           | Inr left \<Rightarrow>
               (case (entryAt (entries lut) (left - 1), entryAt (entries lut) left) of
                  (Some entry1, Some entry2) \<Rightarrow>
                    (let lengthDiff = lut_length entry2 - lut_length entry1
                     in if lengthDiff = 0 then Inr (lut_t entry1)
                        else (let t = (targetLength - lut_length entry1) / lengthDiff
                              in Inr (lut_t entry1 + t * (lut_t entry2 - lut_t entry1))))
                | _ \<Rightarrow> Inr 0))"

section \<open>JavaScript numbers\<close>

text \<open>
  The timeline, the easing functions and the path parser divide by values that may be zero,
  read array elements that may be missing and start from \<^verbatim>\<open>\<plusminus>Infinity\<close>, so their numbers are
  modelled with the special values of a double: \<open>Fin r\<close> is the finite number \<open>r\<close> (exact, no
  rounding or overflow; the two zeros are one), \<open>PInf\<close> and \<open>NInf\<close> are the infinities.
  \<open>NaN\<close> also stands for \<^verbatim>\<open>undefined\<close> where a number is expected, which is what
  arithmetic makes of it.
\<close>

datatype jsnum = Fin real | PInf | NInf | NaN

instantiation jsnum :: "{zero, one, plus, uminus, minus, times, inverse, ord}"
begin

definition zero_jsnum :: jsnum where "zero_jsnum = Fin 0"

definition one_jsnum :: jsnum where "one_jsnum = Fin 1"

fun plus_jsnum :: "jsnum \<Rightarrow> jsnum \<Rightarrow> jsnum" where
  "plus_jsnum NaN b = NaN"
| "plus_jsnum a NaN = NaN"
| "plus_jsnum (Fin a) (Fin b) = Fin (a + b)"
| "plus_jsnum PInf NInf = NaN"
| "plus_jsnum NInf PInf = NaN"
| "plus_jsnum PInf b = PInf"
| "plus_jsnum a PInf = PInf"
| "plus_jsnum NInf b = NInf"
| "plus_jsnum a NInf = NInf"

fun uminus_jsnum :: "jsnum \<Rightarrow> jsnum" where
  "uminus_jsnum (Fin a) = Fin (- a)"
| "uminus_jsnum PInf = NInf"
| "uminus_jsnum NInf = PInf"
| "uminus_jsnum NaN = NaN"

definition minus_jsnum :: "jsnum \<Rightarrow> jsnum \<Rightarrow> jsnum" where
  "minus_jsnum a b = a + (- b)"

fun jsign :: "jsnum \<Rightarrow> real" where
  "jsign (Fin a) = sgn a"
| "jsign PInf = 1"
| "jsign NInf = - 1"
| "jsign NaN = 0"

definition signedInf :: "real \<Rightarrow> jsnum" where
  "signedInf s = (if s = 0 then NaN else if 0 < s then PInf else NInf)"

fun times_jsnum :: "jsnum \<Rightarrow> jsnum \<Rightarrow> jsnum" where
  "times_jsnum NaN b = NaN"
| "times_jsnum a NaN = NaN"
| "times_jsnum (Fin a) (Fin b) = Fin (a * b)"
| "times_jsnum a b = signedInf (jsign a * jsign b)"

fun divide_jsnum :: "jsnum \<Rightarrow> jsnum \<Rightarrow> jsnum" where
  "divide_jsnum NaN b = NaN"
| "divide_jsnum a NaN = NaN"
| "divide_jsnum (Fin a) (Fin b) = (if b = 0 then signedInf a else Fin (a / b))"
| "divide_jsnum (Fin a) b = Fin 0"
| "divide_jsnum a (Fin b) = (if b < 0 then - a else a)"
| "divide_jsnum a b = NaN"

fun inverse_jsnum :: "jsnum \<Rightarrow> jsnum" where
  "inverse_jsnum (Fin a) = (if a = 0 then PInf else Fin (1 / a))"
| "inverse_jsnum PInf = Fin 0"
| "inverse_jsnum NInf = Fin 0"
| "inverse_jsnum NaN = NaN"

fun less_jsnum :: "jsnum \<Rightarrow> jsnum \<Rightarrow> bool" where
  "less_jsnum NaN b = False"
| "less_jsnum a NaN = False"
| "less_jsnum (Fin a) (Fin b) = (a < b)"
| "less_jsnum a PInf = (a \<noteq> PInf)"
| "less_jsnum NInf b = (b \<noteq> NInf)"
| "less_jsnum a b = False"

fun less_eq_jsnum :: "jsnum \<Rightarrow> jsnum \<Rightarrow> bool" where
  "less_eq_jsnum NaN b = False"
| "less_eq_jsnum a NaN = False"
| "less_eq_jsnum (Fin a) (Fin b) = (a \<le> b)"
| "less_eq_jsnum a PInf = True"
| "less_eq_jsnum NInf b = True"
| "less_eq_jsnum a b = False"

instance ..

end

text \<open>
  \<^verbatim>\<open>isNaN\<close>, \<^verbatim>\<open>===\<close> on numbers (false for \<open>NaN\<close>), \<^verbatim>\<open>Math.min\<close> and \<^verbatim>\<open>Math.max\<close> (which
  are \<open>NaN\<close> as soon as an argument is), \<^verbatim>\<open>Math.floor\<close>, \<^verbatim>\<open>Math.sqrt\<close>, \<^verbatim>\<open>Math.pow\<close> with a
  natural exponent, and \<^verbatim>\<open>%\<close>, whose result has the sign of the dividend.
\<close>

fun isNaN :: "jsnum \<Rightarrow> bool" where
  "isNaN NaN = True"
| "isNaN a = False"

definition strictEq :: "jsnum \<Rightarrow> jsnum \<Rightarrow> bool" where
  "strictEq a b = (\<not> isNaN a \<and> a = b)"

definition Math_min :: "jsnum \<Rightarrow> jsnum \<Rightarrow> jsnum" where
  "Math_min a b = (if isNaN a \<or> isNaN b then NaN else if a \<le> b then a else b)"

definition Math_max :: "jsnum \<Rightarrow> jsnum \<Rightarrow> jsnum" where
  "Math_max a b = (if isNaN a \<or> isNaN b then NaN else if a \<le> b then b else a)"

fun Math_floor :: "jsnum \<Rightarrow> jsnum" where
  "Math_floor (Fin a) = Fin (of_int \<lfloor>a\<rfloor>)"
| "Math_floor a = a"

fun Math_sqrt :: "jsnum \<Rightarrow> jsnum" where
  "Math_sqrt (Fin a) = (if a < 0 then NaN else Fin (sqrt a))"
| "Math_sqrt PInf = PInf"
| "Math_sqrt a = NaN"

primrec Math_pow :: "jsnum \<Rightarrow> nat \<Rightarrow> jsnum" where
  "Math_pow a 0 = Fin 1"
| "Math_pow a (Suc n) = a * Math_pow a n"

definition trunc :: "real \<Rightarrow> int" where
  "trunc q = (if 0 \<le> q then \<lfloor>q\<rfloor> else \<lceil>q\<rceil>)"

fun remainder :: "jsnum \<Rightarrow> jsnum \<Rightarrow> jsnum" where
  "remainder NaN b = NaN"
| "remainder a NaN = NaN"
| "remainder (Fin a) (Fin b) = (if b = 0 then NaN else Fin (a - b * of_int (trunc (a / b))))"
| "remainder (Fin a) b = Fin a"
| "remainder a b = NaN"

section \<open>Easing\<close>

text \<open>
  packages/core/src/easing.ts. The declared type of an easing is \<^verbatim>\<open>'linear'\<close>,
  \<^verbatim>\<open>'easeInOutCubic'\<close> or four numbers; \<^verbatim>\<open>applyEasing\<close> tests what it receives at run time,
  so the model has every string, every array of numbers, and \<open>EasingOther\<close> for a value
  that is neither. \<^verbatim>\<open>linear\<close> and the local helper \<^verbatim>\<open>cubicBezierPoint\<close> of easing.ts carry the
  prefix \<open>easing_\<close>.
\<close>

datatype EasingFunction = EasingName string | EasingArray "jsnum list" | EasingOther

definition easing_linear :: "jsnum \<Rightarrow> jsnum" where
  "easing_linear t = t"

definition easeInOutCubic :: "jsnum \<Rightarrow> jsnum" where
  "easeInOutCubic t =
     (if t < Fin (1/2) then Fin 4 * t * t * t
      else Fin 1 - Math_pow (Fin (- 2) * t + Fin 2) 3 / Fin 2)"

definition easing_cubicBezierPoint :: "jsnum \<Rightarrow> jsnum \<Rightarrow> jsnum \<Rightarrow> jsnum \<Rightarrow> jsnum \<Rightarrow> jsnum" where
  "easing_cubicBezierPoint t p0 p1 p2 p3 =
     (let mt = Fin 1 - t
      in mt * mt * mt * p0 +
         Fin 3 * mt * mt * t * p1 +
         Fin 3 * mt * t * t * p2 +
         t * t * t * p3)"

definition epsilon :: real where
  "epsilon = 1 / 1000000"

text \<open>
  The bisection of \<^verbatim>\<open>cubicBezier\<close>: \<^verbatim>\<open>while (right - left > epsilon)\<close>. The variables
  \<^verbatim>\<open>left\<close> and \<^verbatim>\<open>right\<close> start at 0 and 1 and only take mid points, so they are finite
  numbers; each round halves their distance, which gives termination.
\<close>

lemma bisect_measure:
  assumes "epsilon < right - left" and "w = (right - left) / 2"
  shows "nat \<lceil>w / epsilon\<rceil> < nat \<lceil>(right - left) / epsilon\<rceil>"
proof -
  define r where "r = (right - left) / epsilon"
  have "1 < r" using assms(1) by (simp add: r_def epsilon_def)
  then have two: "2 \<le> \<lceil>r\<rceil>" by linarith
  have "r \<le> of_int \<lceil>r\<rceil>" by (rule le_of_int_ceiling)
  moreover have "(2::real) \<le> of_int \<lceil>r\<rceil>" using two by linarith
  ultimately have "r / 2 \<le> of_int \<lceil>r\<rceil> - 1" by linarith
  then have "r / 2 \<le> of_int (\<lceil>r\<rceil> - 1)" by simp
  then have "\<lceil>r / 2\<rceil> \<le> \<lceil>r\<rceil> - 1" by (simp only: ceiling_le)
  with two have "nat \<lceil>r / 2\<rceil> < nat \<lceil>r\<rceil>" by linarith
  moreover have "w / epsilon = r / 2" by (simp add: r_def assms(2))
  ultimately show ?thesis by (simp add: r_def)
qed

function bisect :: "jsnum \<Rightarrow> jsnum \<Rightarrow> jsnum \<Rightarrow> real \<Rightarrow> real \<Rightarrow> real" where
  "bisect t p1x p2x left right =
     (if right - left > epsilon then
        (let mid = (left + right) / 2;
             x' = easing_cubicBezierPoint (Fin mid) (Fin 0) p1x p2x (Fin 1)
         in if x' < t then bisect t p1x p2x mid right
            else bisect t p1x p2x left mid)
      else left)"
  by pat_completeness auto
termination
proof (relation "measure (\<lambda>(t, p1x, p2x, left, right). nat \<lceil>(right - left) / epsilon\<rceil>)", goal_cases)
  case 1
  show ?case by simp
next
  case (2 t p1x p2x left right mid x')
  then have "epsilon < right - left" and "right - mid = (right - left) / 2"
    by (simp_all add: field_simps)
  from bisect_measure[OF this] show ?case by simp
next
  case (3 t p1x p2x left right mid x')
  then have "epsilon < right - left" and "mid - left = (right - left) / 2"
    by (simp_all add: field_simps)
  from bisect_measure[OF this] show ?case by simp
qed

declare bisect.simps [simp del]

definition cubicBezier :: "jsnum \<Rightarrow> jsnum \<Rightarrow> jsnum \<Rightarrow> jsnum \<Rightarrow> jsnum \<Rightarrow> jsnum" where
  "cubicBezier t p1x p1y p2x p2y =
     (let left = bisect t p1x p2x 0 1
      in easing_cubicBezierPoint (Fin left) (Fin 0) p1y p2y (Fin 1))"

fun applyEasing :: "jsnum \<Rightarrow> EasingFunction \<Rightarrow> jsnum" where
  "applyEasing t (EasingName name) =
     (if name = ''linear'' then easing_linear t
      else if name = ''easeInOutCubic'' then easeInOutCubic t
      else easing_linear t)"
| "applyEasing t (EasingArray easing) =
     (if length easing = 4 then cubicBezier t (easing ! 0) (easing ! 1) (easing ! 2) (easing ! 3)
      else easing_linear t)"
| "applyEasing t EasingOther = easing_linear t"

section \<open>Timeline\<close>

text \<open>
  packages/core/src/timeline.ts. An optional field of \<^verbatim>\<open>TraceOptions\<close> is an \<open>option\<close>; the
  optional fields that share a name with a field of the timeline state carry the prefix
  \<open>opt_\<close>. \<^verbatim>\<open>startTimeline\<close> takes the start time as an argument (its default is the clock).
  Finite numbers are exact, so \<open>updateTimeline\<close> and \<open>getTimelineProgress\<close> below compute
  the difference, the remainder and the quotient without rounding; the rounding of the loop
  count is modelled at the end of this section.
\<close>

datatype Direction = Forward | Reverse | Yoyo

record TraceOptions =
  durationMs :: jsnum
  delayMs :: "jsnum option"
  opt_loop :: "bool option"
  opt_easing :: "EasingFunction option"
  opt_direction :: "Direction option"
  strokeWidth :: "jsnum option"
  globalTiming :: "bool option"

record TimelineState =
  startTime :: jsnum
  currentTime :: jsnum
  duration :: jsnum
  loop :: bool
  direction :: Direction
  isPlaying :: bool
  isComplete :: bool
  loopCount :: jsnum

definition createTimeline :: "TraceOptions \<Rightarrow> TimelineState" where
  "createTimeline options =
     \<lparr>startTime = Fin 0,
      currentTime = Fin 0,
      duration = durationMs options,
      loop = (case opt_loop options of Some True \<Rightarrow> True | _ \<Rightarrow> False),
      direction = (case opt_direction options of Some d \<Rightarrow> d | None \<Rightarrow> Forward),
      isPlaying = False,
      isComplete = False,
      loopCount = Fin 0\<rparr>"

definition startTimeline :: "TimelineState \<Rightarrow> jsnum \<Rightarrow> TimelineState" where
  "startTimeline timeline startTime' =
     timeline\<lparr>startTime := startTime', currentTime := startTime', isPlaying := True, isComplete := False\<rparr>"

definition stopTimeline :: "TimelineState \<Rightarrow> TimelineState" where
  "stopTimeline timeline = timeline\<lparr>isPlaying := False\<rparr>"

definition resetTimeline :: "TimelineState \<Rightarrow> TimelineState" where
  "resetTimeline timeline =
     timeline\<lparr>currentTime := startTime timeline, isComplete := False, loopCount := Fin 0\<rparr>"

text \<open>
  The \<^verbatim>\<open>switch (timeline.direction)\<close> that \<^verbatim>\<open>updateTimeline\<close> and \<^verbatim>\<open>getTimelineProgress\<close>
  both contain.
\<close>

definition applyDirection :: "Direction \<Rightarrow> jsnum \<Rightarrow> jsnum" where
  "applyDirection d progress =
     (case d of
        Reverse \<Rightarrow> Fin 1 - progress
      | Yoyo \<Rightarrow>
          (let cycle = Math_floor (progress * Fin 2)
           in if strictEq (remainder cycle (Fin 2)) (Fin 0) then progress * Fin 2
              else Fin 2 - progress * Fin 2)
      | Forward \<Rightarrow> progress)"

definition updateTimeline :: "TimelineState \<Rightarrow> jsnum \<Rightarrow> TimelineState" where
  "updateTimeline timeline currentTime' =
     (if \<not> isPlaying timeline then timeline
      else
        (let elapsed = currentTime' - startTime timeline;
             totalDuration = duration timeline;
             (progress, isComplete', loopCount') =
               (if loop timeline then
                  (let cycleDuration = totalDuration;
                       cycleTime = remainder elapsed cycleDuration
                   in (cycleTime / totalDuration, False, Math_floor (elapsed / cycleDuration)))
                else if elapsed \<ge> totalDuration then (Fin 1, True, loopCount timeline)
                else (elapsed / totalDuration, False, loopCount timeline));
             progress' = applyDirection (direction timeline) progress
         in timeline\<lparr>currentTime := currentTime', isComplete := isComplete', loopCount := loopCount'\<rparr>))"

text \<open>
  \<^verbatim>\<open>if (easing)\<close> skips the easing when none is given and for the empty string, which is
  falsy; any other value that is falsy is no string and no array, and \<open>applyEasing\<close> would
  return the progress unchanged for it.
\<close>

definition getTimelineProgress :: "TimelineState \<Rightarrow> EasingFunction option \<Rightarrow> jsnum" where
  "getTimelineProgress timeline easing =
     (if \<not> isPlaying timeline then Fin 0
      else
        (let elapsed = currentTime timeline - startTime timeline;
             totalDuration = duration timeline;
             progress =
               (if loop timeline then
                  (let cycleTime = remainder elapsed totalDuration
                   in cycleTime / totalDuration)
                else Math_min (elapsed / totalDuration) (Fin 1));
             progress' = applyDirection (direction timeline) progress;
             progress'' =
               (case easing of
                  None \<Rightarrow> progress'
                | Some e \<Rightarrow> if e = EasingName [] then progress' else applyEasing progress' e)
         in Math_max (Fin 0) (Math_min (Fin 1) progress'')))"

subsection \<open>The loop count on doubles\<close>

text \<open>
  The numbers above are exact. What the rounding of doubles does to the loop count is seen
  on the two operations of \<^verbatim>\<open>updateTimeline\<close> that produce it,
  \<^verbatim>\<open>elapsed = currentTime - timeline.startTime\<close> and
  \<^verbatim>\<open>Math.floor(elapsed / cycleDuration)\<close>, each giving the double nearest to the exact
  result (53 bits, ties to the even one). \<open>pow2 e\<close> is the power of two with exponent \<open>e\<close>;
  overflow and subnormal numbers are not represented.
\<close>

definition pow2 :: "int \<Rightarrow> real" where
  "pow2 e = (if 0 \<le> e then 2 ^ nat e else 1 / 2 ^ nat (- e))"

definition roundHalfEven :: "real \<Rightarrow> int" where
  "roundHalfEven q =
     (let f = \<lfloor>q\<rfloor>; r = q - of_int f
      in if r < 1/2 then f else if 1/2 < r then f + 1 else if even f then f else f + 1)"

definition roundToDouble :: "real \<Rightarrow> real" where
  "roundToDouble v =
     (if v = 0 then 0
      else (let e = \<lfloor>log 2 \<bar>v\<bar>\<rfloor>; ulp = pow2 (e - 52)
            in of_int (roundHalfEven (v / ulp)) * ulp))"

definition loopCountDouble :: "real \<Rightarrow> real \<Rightarrow> real \<Rightarrow> int" where
  "loopCountDouble startTime' currentTime' duration' =
     (let elapsed = roundToDouble (currentTime' - startTime');
          cycleDuration = duration'
      in \<lfloor>roundToDouble (elapsed / cycleDuration)\<rfloor>)"


section \<open>Path parser\<close>

text \<open>
  The parser of SVG path data. A segment's \<^verbatim>\<open>type\<close> is one of the letters M, L, C, Q, Z;
  its optional \<^verbatim>\<open>curve\<close> is an \<open>option\<close>. The field \<^verbatim>\<open>totalLength\<close> of \<^verbatim>\<open>PathData\<close> is
  \<open>pathTotalLength\<close> (the table above has a field of the same name).
\<close>

datatype SegmentType = SegM | SegL | SegC | SegQ | SegZ

record PathSegment =
  type :: SegmentType
  points :: "jsnum Point list"
  curve :: "jsnum BezierCurve option"

record Bounds =
  minX :: jsnum
  minY :: jsnum
  maxX :: jsnum
  maxY :: jsnum

record PathData =
  segments :: "PathSegment list"
  pathTotalLength :: jsnum
  bounds :: Bounds

subsection \<open>Characters and number literals\<close>

text \<open>
  A string is a list of 8-bit characters, so the white space of JavaScript (\<^verbatim>\<open>\s\<close>,
  \<^verbatim>\<open>trim\<close>) is the part of it below U+0100: tab, line feed, vertical tab, form feed,
  carriage return, space and no-break space. \<^verbatim>\<open>toUpperCase\<close> is applied to command letters
  only.
\<close>

definition isCommandChar :: "char \<Rightarrow> bool" where
  "isCommandChar c = (c \<in> set ''MLHVCSQTAZmlhvcsqtaz'')"

definition isWhiteSpace :: "char \<Rightarrow> bool" where
  "isWhiteSpace c = (c \<in> set [CHR 0x09, CHR 0x0A, CHR 0x0B, CHR 0x0C, CHR 0x0D, CHR 0x20, CHR 0xA0])"

definition isSeparator :: "char \<Rightarrow> bool" where
  "isSeparator c = (isWhiteSpace c \<or> c = CHR '','')"

definition isDigit :: "char \<Rightarrow> bool" where
  "isDigit c = (c \<in> set ''0123456789'')"

definition toUpperCase :: "char \<Rightarrow> char" where
  "toUpperCase c =
     (case map_of (zip ''abcdefghijklmnopqrstuvwxyz'' ''ABCDEFGHIJKLMNOPQRSTUVWXYZ'') c of
        Some u \<Rightarrow> u
      | None \<Rightarrow> c)"

definition trim :: "string \<Rightarrow> string" where
  "trim s = rev (dropWhile isWhiteSpace (rev (dropWhile isWhiteSpace s)))"

text \<open>
  \<^verbatim>\<open>parseFloat\<close>: white space is skipped, then the longest prefix that is a decimal literal
  is read: an optional sign, then \<^verbatim>\<open>Infinity\<close>, or digits with an optional fraction, or a
  dot and digits, then an optional exponent (which counts only if it has a digit). Without
  such a prefix the result is \<open>NaN\<close>. The value is exact, not rounded to a double.
\<close>

definition digitValue :: "char \<Rightarrow> nat" where
  "digitValue c = of_char c - 48"

definition digitsValue :: "string \<Rightarrow> nat" where
  "digitsValue ds = foldl (\<lambda>acc c. 10 * acc + digitValue c) 0 ds"

definition splitSign :: "string \<Rightarrow> bool \<times> string" where
  "splitSign s =
     (case s of
        c # r \<Rightarrow> if c = CHR ''-'' then (True, r) else if c = CHR ''+'' then (False, r) else (False, s)
      | [] \<Rightarrow> (False, s))"

definition exponentPart :: "string \<Rightarrow> int" where
  "exponentPart s =
     (case s of
        c # r \<Rightarrow>
          if c = CHR ''e'' \<or> c = CHR ''E'' then
            (let (neg, r') = splitSign r;
                 ds = takeWhile isDigit r'
             in if ds = [] then 0
                else if neg then - int (digitsValue ds) else int (digitsValue ds))
          else 0
      | [] \<Rightarrow> 0)"

definition scale10 :: "real \<Rightarrow> int \<Rightarrow> real" where
  "scale10 m e = (if 0 \<le> e then m * 10 ^ nat e else m / 10 ^ nat (- e))"

definition parseFloat :: "string \<Rightarrow> jsnum" where
  "parseFloat s =
     (let (neg, s2) = splitSign (dropWhile isWhiteSpace s)
      in if take 8 s2 = ''Infinity'' then (if neg then NInf else PInf)
         else
           (let ip = takeWhile isDigit s2;
                r1 = dropWhile isDigit s2;
                (fp, r2) = (case r1 of
                              c # r \<Rightarrow> if c = CHR ''.'' then (takeWhile isDigit r, dropWhile isDigit r)
                                       else ([], r1)
                            | [] \<Rightarrow> ([], r1))
            in if ip = [] \<and> fp = [] then NaN
               else
                 (let mantissa = real (digitsValue ip) + real (digitsValue fp) / 10 ^ length fp;
                      v = scale10 mantissa (exponentPart r2)
                  in Fin (if neg then - v else v))))"

subsection \<open>Tokenizer\<close>

text \<open>
  \<^verbatim>\<open>argsString.split(/[\s,]+/)\<close> for a string that is not empty: the pieces between the
  maximal runs of separators, with an empty first or last piece when the string starts or
  ends with a separator.
\<close>

function splitArgs :: "string \<Rightarrow> string list" where
  "splitArgs s =
     (let tok = takeWhile (\<lambda>c. \<not> isSeparator c) s;
          rest = dropWhile (\<lambda>c. \<not> isSeparator c) s
      in if rest = [] then [tok] else tok # splitArgs (dropWhile isSeparator rest))"
  by pat_completeness auto
termination
proof (relation "measure length", goal_cases)
  case 1
  show ?case by simp
next
  case (2 s tok rest)
  then obtain c r where rest: "rest = c # r" and sep: "isSeparator c"
    by (metis dropWhile_eq_Nil_conv hd_dropWhile list.collapse list.set_sel(1))
  have "length (dropWhile isSeparator rest) \<le> length r"
    using rest sep by (simp add: length_dropWhile_le)
  moreover have "length rest \<le> length s"
    using 2 by (simp add: length_dropWhile_le)
  ultimately show ?case using rest by simp
qed

declare splitArgs.simps [simp del]

text \<open>The function mapped over the pieces: \<^verbatim>\<open>parseFloat\<close>, with 0 for \<open>NaN\<close>.\<close>

definition tokenArg :: "string \<Rightarrow> jsnum" where
  "tokenArg arg = (let num = parseFloat arg in if isNaN num then Fin 0 else num)"

text \<open>
  The loop over the matches of
  \<^verbatim>\<open>/([MLHVCSQTAZmlhvcsqtaz])([^MLHVCSQTAZmlhvcsqtaz]*)/g\<close>: the next command letter, and
  with it the longest run of other characters that follows. A command is pushed when the
  trimmed run is not empty, or for the letter Z.
\<close>

function tokenizePath :: "string \<Rightarrow> (char \<times> jsnum list) list" where
  "tokenizePath pathString =
     (case dropWhile (\<lambda>c. \<not> isCommandChar c) pathString of
        [] \<Rightarrow> []
      | type' # after \<Rightarrow>
          (let argsString = trim (takeWhile (\<lambda>c. \<not> isCommandChar c) after);
               remaining = dropWhile (\<lambda>c. \<not> isCommandChar c) after;
               command =
                 (if argsString \<noteq> [] then [(type', map tokenArg (splitArgs argsString))]
                  else if toUpperCase type' = CHR ''Z'' then [(type', [])]
                  else [])
           in command @ tokenizePath remaining))"
  by pat_completeness auto
termination
proof (relation "measure length", goal_cases)
  case 1
  show ?case by simp
next
  case (2 pathString type' after argsString remaining)
  have "length remaining \<le> length after"
    using 2 by (simp add: length_dropWhile_le)
  moreover have "length (type' # after) \<le> length pathString"
    using 2(1)[symmetric] by (simp add: length_dropWhile_le del: length_Cons)
  ultimately show ?case by simp
qed

declare tokenizePath.simps [simp del]

subsection \<open>Commands\<close>

text \<open>
  The variables of \<^verbatim>\<open>parsePathData\<close>: \<^verbatim>\<open>segments\<close> (here \<open>ps_segments\<close>), \<^verbatim>\<open>currentPoint\<close>
  and \<^verbatim>\<open>lastControlPoint\<close>, which may be \<^verbatim>\<open>null\<close>.
\<close>

record ParserState =
  ps_segments :: "PathSegment list"
  currentPoint :: "jsnum Point"
  lastControlPoint :: "jsnum Point option"

text \<open>
  \<^verbatim>\<open>args[i]\<close> is \<^verbatim>\<open>undefined\<close> beyond the end of the array, and \<open>NaN\<close> in every sum,
  difference, minimum and maximum that later reads it. A loop
  \<^verbatim>\<open>for (let i = 0; i < args.length; i += step)\<close> runs its body for the indices
  0, step, 2 step, ... below the length.
\<close>

definition argAt :: "jsnum list \<Rightarrow> nat \<Rightarrow> jsnum" where
  "argAt args i = (if i < length args then args ! i else NaN)"

definition argIndices :: "nat \<Rightarrow> nat \<Rightarrow> nat list" where
  "argIndices step n = map (\<lambda>j. j * step) [0..<(n + step - 1) div step]"

definition forArgs :: "nat \<Rightarrow> jsnum list \<Rightarrow> (nat \<Rightarrow> ParserState \<Rightarrow> ParserState) \<Rightarrow> ParserState \<Rightarrow> ParserState" where
  "forArgs step args body st = foldl (\<lambda>st' i. body i st') st (argIndices step (length args))"

text \<open>
  \<^verbatim>\<open>relative ? {x: currentPoint.x + x, y: currentPoint.y + y} : {x, y}\<close>, and the end of each
  loop body: push the segment, set \<^verbatim>\<open>currentPoint\<close> and \<^verbatim>\<open>lastControlPoint\<close>. The loop
  bodies follow, one for each command letter.
\<close>

definition targetPoint :: "bool \<Rightarrow> jsnum Point \<Rightarrow> jsnum \<Rightarrow> jsnum \<Rightarrow> jsnum Point" where
  "targetPoint relative cur x' y' =
     (if relative then \<lparr>x = x cur + x', y = y cur + y'\<rparr> else \<lparr>x = x', y = y'\<rparr>)"

definition pushSegment :: "PathSegment \<Rightarrow> jsnum Point \<Rightarrow> jsnum Point option \<Rightarrow> ParserState \<Rightarrow> ParserState" where
  "pushSegment seg cur ctl st =
     \<lparr>ps_segments = ps_segments st @ [seg], currentPoint = cur, lastControlPoint = ctl\<rparr>"

definition moveTo :: "jsnum list \<Rightarrow> bool \<Rightarrow> nat \<Rightarrow> ParserState \<Rightarrow> ParserState" where
  "moveTo args relative i st =
     (let point = targetPoint relative (currentPoint st) (argAt args i) (argAt args (i + 1))
      in pushSegment \<lparr>type = (if i = 0 then SegM else SegL), points = [point], curve = None\<rparr>
           point None st)"

definition lineTo :: "jsnum list \<Rightarrow> bool \<Rightarrow> nat \<Rightarrow> ParserState \<Rightarrow> ParserState" where
  "lineTo args relative i st =
     (let point = targetPoint relative (currentPoint st) (argAt args i) (argAt args (i + 1))
      in pushSegment \<lparr>type = SegL, points = [point], curve = None\<rparr> point None st)"

definition horizontalTo :: "jsnum list \<Rightarrow> bool \<Rightarrow> nat \<Rightarrow> ParserState \<Rightarrow> ParserState" where
  "horizontalTo args relative i st =
     (let x' = argAt args i;
          point = (if relative then \<lparr>x = x (currentPoint st) + x', y = y (currentPoint st)\<rparr>
                   else \<lparr>x = x', y = y (currentPoint st)\<rparr>)
      in pushSegment \<lparr>type = SegL, points = [point], curve = None\<rparr> point None st)"

definition verticalTo :: "jsnum list \<Rightarrow> bool \<Rightarrow> nat \<Rightarrow> ParserState \<Rightarrow> ParserState" where
  "verticalTo args relative i st =
     (let y' = argAt args i;
          point = (if relative then \<lparr>x = x (currentPoint st), y = y (currentPoint st) + y'\<rparr>
                   else \<lparr>x = x (currentPoint st), y = y'\<rparr>)
      in pushSegment \<lparr>type = SegL, points = [point], curve = None\<rparr> point None st)"

definition cubicTo :: "jsnum list \<Rightarrow> bool \<Rightarrow> nat \<Rightarrow> ParserState \<Rightarrow> ParserState" where
  "cubicTo args relative i st =
     (let control1' = targetPoint relative (currentPoint st) (argAt args i) (argAt args (i + 1));
          control2' = targetPoint relative (currentPoint st) (argAt args (i + 2)) (argAt args (i + 3));
          end' = targetPoint relative (currentPoint st) (argAt args (i + 4)) (argAt args (i + 5));
          curve' = \<lparr>start = currentPoint st, control1 = control1', control2 = control2', endp = end'\<rparr>
      in pushSegment \<lparr>type = SegC, points = [end'], curve = Some (Cubic curve')\<rparr>
           end' (Some control2') st)"

text \<open>The first control point of S and T: the last control point mirrored, if there is one.\<close>

definition reflected :: "ParserState \<Rightarrow> jsnum Point" where
  "reflected st =
     (case lastControlPoint st of
        Some l \<Rightarrow> \<lparr>x = Fin 2 * x (currentPoint st) - x l, y = Fin 2 * y (currentPoint st) - y l\<rparr>
      | None \<Rightarrow> currentPoint st)"

definition smoothCubicTo :: "jsnum list \<Rightarrow> bool \<Rightarrow> nat \<Rightarrow> ParserState \<Rightarrow> ParserState" where
  "smoothCubicTo args relative i st =
     (let control1' = reflected st;
          control2' = targetPoint relative (currentPoint st) (argAt args i) (argAt args (i + 1));
          end' = targetPoint relative (currentPoint st) (argAt args (i + 2)) (argAt args (i + 3));
          curve' = \<lparr>start = currentPoint st, control1 = control1', control2 = control2', endp = end'\<rparr>
      in pushSegment \<lparr>type = SegC, points = [end'], curve = Some (Cubic curve')\<rparr>
           end' (Some control2') st)"

definition quadraticTo :: "jsnum list \<Rightarrow> bool \<Rightarrow> nat \<Rightarrow> ParserState \<Rightarrow> ParserState" where
  "quadraticTo args relative i st =
     (let control' = targetPoint relative (currentPoint st) (argAt args i) (argAt args (i + 1));
          end' = targetPoint relative (currentPoint st) (argAt args (i + 2)) (argAt args (i + 3));
          curve' = \<lparr>qstart = currentPoint st, control = control', qendp = end'\<rparr>
      in pushSegment \<lparr>type = SegQ, points = [end'], curve = Some (Quadratic curve')\<rparr>
           end' (Some control') st)"

definition smoothQuadraticTo :: "jsnum list \<Rightarrow> bool \<Rightarrow> nat \<Rightarrow> ParserState \<Rightarrow> ParserState" where
  "smoothQuadraticTo args relative i st =
     (let control' = reflected st;
          end' = targetPoint relative (currentPoint st) (argAt args i) (argAt args (i + 1));
          curve' = \<lparr>qstart = currentPoint st, control = control', qendp = end'\<rparr>
      in pushSegment \<lparr>type = SegQ, points = [end'], curve = Some (Quadratic curve')\<rparr>
           end' (Some control') st)"

definition arcTo :: "jsnum list \<Rightarrow> bool \<Rightarrow> nat \<Rightarrow> ParserState \<Rightarrow> ParserState" where
  "arcTo args relative i st =
     (let end' = targetPoint relative (currentPoint st) (argAt args (i + 5)) (argAt args (i + 6))
      in pushSegment \<lparr>type = SegL, points = [end'], curve = None\<rparr> end' None st)"

definition closePath :: "ParserState \<Rightarrow> ParserState" where
  "closePath st =
     st\<lparr>ps_segments := ps_segments st @ [\<lparr>type = SegZ, points = [], curve = None\<rparr>],
        lastControlPoint := None\<rparr>"

definition parseCommand :: "ParserState \<Rightarrow> char \<times> jsnum list \<Rightarrow> ParserState" where
  "parseCommand st command =
     (let (type', args) = command;
          upperType = toUpperCase type';
          relative = (type' \<noteq> upperType)
      in if upperType = CHR ''M'' then forArgs 2 args (moveTo args relative) st
         else if upperType = CHR ''L'' then forArgs 2 args (lineTo args relative) st
         else if upperType = CHR ''H'' then forArgs 1 args (horizontalTo args relative) st
         else if upperType = CHR ''V'' then forArgs 1 args (verticalTo args relative) st
         else if upperType = CHR ''C'' then forArgs 6 args (cubicTo args relative) st
         else if upperType = CHR ''S'' then forArgs 4 args (smoothCubicTo args relative) st
         else if upperType = CHR ''Q'' then forArgs 4 args (quadraticTo args relative) st
         else if upperType = CHR ''T'' then forArgs 2 args (smoothQuadraticTo args relative) st
         else if upperType = CHR ''A'' then forArgs 7 args (arcTo args relative) st
         else if upperType = CHR ''Z'' then closePath st
         else st)"

definition parsePathData :: "string \<Rightarrow> PathSegment list" where
  "parsePathData pathString =
     ps_segments
       (foldl parseCommand
          \<lparr>ps_segments = [], currentPoint = \<lparr>x = Fin 0, y = Fin 0\<rparr>, lastControlPoint = None\<rparr>
          (tokenizePath pathString))"

subsection \<open>Normalisation, bounds and length\<close>

text \<open>
  The body of the loop of \<^verbatim>\<open>normalizeToCubicBeziers\<close>. The source casts the curve of a
  segment of type Q to a quadratic curve without a test; if it is a cubic curve,
  \<^verbatim>\<open>quad.control\<close> is undefined and reading \<^verbatim>\<open>quad.control.x\<close> raises a TypeError.
\<close>

definition normalizeSegment :: "PathSegment \<Rightarrow> error + PathSegment" where
  "normalizeSegment segment =
     (if type segment = SegQ \<and> curve segment \<noteq> None then
        (case curve segment of
           Some (Quadratic quad) \<Rightarrow>
             (let cubic =
                    \<lparr>start = qstart quad,
                     control1 =
                       \<lparr>x = x (qstart quad) + Fin (2/3) * (x (control quad) - x (qstart quad)),
                        y = y (qstart quad) + Fin (2/3) * (y (control quad) - y (qstart quad))\<rparr>,
                     control2 =
                       \<lparr>x = x (qendp quad) + Fin (2/3) * (x (control quad) - x (qendp quad)),
                        y = y (qendp quad) + Fin (2/3) * (y (control quad) - y (qendp quad))\<rparr>,
                     endp = qendp quad\<rparr>
              in Inr \<lparr>type = SegC, points = [qendp quad], curve = Some (Cubic cubic)\<rparr>)
         | _ \<Rightarrow> Inl TypeError)
      else Inr segment)"

fun normalizeToCubicBeziers :: "PathSegment list \<Rightarrow> error + PathSegment list" where
  "normalizeToCubicBeziers [] = Inr []"
| "normalizeToCubicBeziers (segment # rest) =
     (case normalizeSegment segment of
        Inl e \<Rightarrow> Inl e
      | Inr segment' \<Rightarrow>
          (case normalizeToCubicBeziers rest of
             Inl e \<Rightarrow> Inl e
           | Inr normalized \<Rightarrow> Inr (segment' # normalized)))"

text \<open>
  \<^verbatim>\<open>calculatePathBounds\<close>: the four bounds start at \<^verbatim>\<open>Infinity\<close> and \<^verbatim>\<open>-Infinity\<close>, take in
  the points of every segment and the control points of its curve, and a bound that is
  still infinite at the end becomes 0.
\<close>

definition includePoint :: "Bounds \<Rightarrow> jsnum Point \<Rightarrow> Bounds" where
  "includePoint b point =
     \<lparr>minX = Math_min (minX b) (x point), minY = Math_min (minY b) (y point),
      maxX = Math_max (maxX b) (x point), maxY = Math_max (maxY b) (y point)\<rparr>"

definition includeSegment :: "Bounds \<Rightarrow> PathSegment \<Rightarrow> Bounds" where
  "includeSegment b segment =
     (let b' = foldl includePoint b (points segment)
      in case curve segment of
           None \<Rightarrow> b'
         | Some (Cubic c) \<Rightarrow>
             \<lparr>minX = Math_min (Math_min (minX b') (x (control1 c))) (x (control2 c)),
              minY = Math_min (Math_min (minY b') (y (control1 c))) (y (control2 c)),
              maxX = Math_max (Math_max (maxX b') (x (control1 c))) (x (control2 c)),
              maxY = Math_max (Math_max (maxY b') (y (control1 c))) (y (control2 c))\<rparr>
         | Some (Quadratic q) \<Rightarrow>
             \<lparr>minX = Math_min (minX b') (x (control q)),
              minY = Math_min (minY b') (y (control q)),
              maxX = Math_max (maxX b') (x (control q)),
              maxY = Math_max (maxY b') (y (control q))\<rparr>)"

definition calculatePathBounds :: "PathSegment list \<Rightarrow> Bounds" where
  "calculatePathBounds segs =
     (let b = foldl includeSegment \<lparr>minX = PInf, minY = PInf, maxX = NInf, maxY = NInf\<rparr> segs
      in \<lparr>minX = (if strictEq (minX b) PInf then Fin 0 else minX b),
          minY = (if strictEq (minY b) PInf then Fin 0 else minY b),
          maxX = (if strictEq (maxX b) NInf then Fin 0 else maxX b),
          maxY = (if strictEq (maxY b) NInf then Fin 0 else maxY b)\<rparr>)"

text \<open>
  The loop of \<^verbatim>\<open>createPathData\<close> on \<^verbatim>\<open>totalLength\<close> and \<^verbatim>\<open>currentPoint\<close> (\<^verbatim>\<open>null\<close> at first):
  the distance from the first point of one segment to the first point of the next segment
  that has a point.
\<close>

definition addSegmentLength :: "jsnum \<times> jsnum Point option \<Rightarrow> PathSegment \<Rightarrow> jsnum \<times> jsnum Point option" where
  "addSegmentLength acc segment =
     (let (totalLen, cur) = acc
      in case points segment of
           [] \<Rightarrow> (totalLen, cur)
         | point # _ \<Rightarrow>
             (case cur of
                None \<Rightarrow> (totalLen, Some point)
              | Some p \<Rightarrow>
                  (let dx = x point - x p;
                       dy = y point - y p
                   in (totalLen + Math_sqrt (dx * dx + dy * dy), Some point))))"

definition createPathData :: "string \<Rightarrow> error + PathData" where
  "createPathData pathString =
     (case normalizeToCubicBeziers (parsePathData pathString) of
        Inl e \<Rightarrow> Inl e
      | Inr normalizedSegments \<Rightarrow>
          (let bounds' = calculatePathBounds normalizedSegments;
               (totalLen, cur) = foldl addSegmentLength (Fin 0, None) normalizedSegments
           in Inr \<lparr>segments = normalizedSegments, pathTotalLength = totalLen, bounds = bounds'\<rparr>))"

section \<open>Auxiliary definitions for the properties\<close>

text \<open>Concrete curves used as inputs below.\<close>

definition lineCubic :: "real \<Rightarrow> real CubicBezierCurve" where
  "lineCubic e = \<lparr>start = \<lparr>x = 0, y = 0\<rparr>, control1 = \<lparr>x = 0, y = 0\<rparr>,
                  control2 = \<lparr>x = 0, y = 0\<rparr>, endp = \<lparr>x = e, y = 0\<rparr>\<rparr>"

definition archQuadratic :: "real QuadraticBezierCurve" where
  "archQuadratic = \<lparr>qstart = \<lparr>x = 0, y = 0\<rparr>, control = \<lparr>x = 0, y = 2\<rparr>, qendp = \<lparr>x = 0, y = 0\<rparr>\<rparr>"

text \<open>A curve with finite coordinates, as the parser stores it.\<close>

definition liftPoint :: "real Point \<Rightarrow> jsnum Point" where
  "liftPoint p = \<lparr>x = Fin (x p), y = Fin (y p)\<rparr>"

definition liftCubic :: "real CubicBezierCurve \<Rightarrow> jsnum CubicBezierCurve" where
  "liftCubic c = \<lparr>start = liftPoint (start c), control1 = liftPoint (control1 c),
                  control2 = liftPoint (control2 c), endp = liftPoint (endp c)\<rparr>"

definition liftQuadratic :: "real QuadraticBezierCurve \<Rightarrow> jsnum QuadraticBezierCurve" where
  "liftQuadratic q = \<lparr>qstart = liftPoint (qstart q), control = liftPoint (control q),
                      qendp = liftPoint (qendp q)\<rparr>"

text \<open>
  The cubic that the specification prescribes for a quadratic:
  control1 = start + 2/3 (control - start), control2 = end + 2/3 (control - end).
\<close>

definition specElevatedCubic :: "real QuadraticBezierCurve \<Rightarrow> real CubicBezierCurve" where
  "specElevatedCubic q =
     \<lparr>start = qstart q,
      control1 = \<lparr>x = x (qstart q) + 2/3 * (x (control q) - x (qstart q)),
                  y = y (qstart q) + 2/3 * (y (control q) - y (qstart q))\<rparr>,
      control2 = \<lparr>x = x (qendp q) + 2/3 * (x (control q) - x (qendp q)),
                  y = y (qendp q) + 2/3 * (y (control q) - y (qendp q))\<rparr>,
      endp = qendp q\<rparr>"

text \<open>Segments that normalisation accepts, and parser states that hold only such segments.\<close>

definition accepted :: "PathSegment \<Rightarrow> bool" where
  "accepted seg = (\<exists>seg'. normalizeSegment seg = Inr seg')"

definition acceptedState :: "ParserState \<Rightarrow> bool" where
  "acceptedState st = list_all accepted (ps_segments st)"

text \<open>Two timelines that have run for exactly their duration, one looping and one not.\<close>

definition loopingTimeline :: TimelineState where
  "loopingTimeline =
     \<lparr>startTime = Fin 100, currentTime = Fin 1100, duration = Fin 1000, loop = True,
      direction = Forward, isPlaying = True, isComplete = False, loopCount = Fin 0\<rparr>"

definition singleTimeline :: TimelineState where
  "singleTimeline = loopingTimeline\<lparr>loop := False\<rparr>"



text \<open>The quadratic of the path \<open>M 0 0 Q 1 1 2 0\<close>.\<close>

definition hillQuadratic :: "real QuadraticBezierCurve" where
  "hillQuadratic = \<lparr>qstart = \<lparr>x = 0, y = 0\<rparr>, control = \<lparr>x = 1, y = 1\<rparr>, qendp = \<lparr>x = 2, y = 0\<rparr>\<rparr>"




text \<open>The double nearest to 0.7, which is what the literal \<^verbatim>\<open>0.7\<close> denotes.\<close>

definition double_0_7 :: real where
  "double_0_7 = 6305039478318694 / 2 ^ 53"


section \<open>Properties of the B\'ezier functions\<close>

text \<open>
  C1. A subdivision of a cubic at \<open>t\<close> has to end its first half (and start its second half)
  at the curve's point at \<open>t\<close>. \<open>splitCubicBezier\<close> does not: for the cubic with control
  points (0,0), (0,0), (0,0), (8,0) and \<open>t = 1/2\<close> the first half ends (and the second
  half starts) at (6,0), while the curve's point at 1/2 is (1,0); so the first half at
  parameter 1 differs from the curve at \<open>1 * t\<close>.
\<close>

theorem splitCubicBezier_misses_curve_point:
  "endp (fst (splitCubicBezier (lineCubic 8) (1/2))) = \<lparr>x = 6, y = 0\<rparr> \<and>
   start (snd (splitCubicBezier (lineCubic 8) (1/2))) = \<lparr>x = 6, y = 0\<rparr> \<and>
   cubicBezierPoint (lineCubic 8) (1/2) = \<lparr>x = 1, y = 0\<rparr> \<and>
   cubicBezierPoint (fst (splitCubicBezier (lineCubic 8) (1/2))) 1
     \<noteq> cubicBezierPoint (lineCubic 8) (1 * (1/2))"
  by (simp add: splitCubicBezier_def cubicBezierPoint_def lineCubic_def Let_def)



















subsection \<open>Arc length\<close>

lemma chord_nonneg: "0 \<le> chord p1 p2"
  by (simp add: chord_def Let_def)

lemma chord_same: "chord p p = 0"
  by (simp add: chord_def)

lemma chord_vertical: "x p1 = x p2 \<Longrightarrow> chord p1 p2 = \<bar>y p2 - y p1\<bar>"
  by (simp add: chord_def Let_def)

lemma chord_horizontal: "y p1 = y p2 \<Longrightarrow> chord p1 p2 = \<bar>x p2 - x p1\<bar>"
  by (simp add: chord_def Let_def)

lemma chord_triangle: "chord a c \<le> chord a b + chord b c"
proof -
  have "sqrt (((x b - x a) + (x c - x b))\<^sup>2 + ((y b - y a) + (y c - y b))\<^sup>2)
          \<le> sqrt ((x b - x a)\<^sup>2 + (y b - y a)\<^sup>2) + sqrt ((x c - x b)\<^sup>2 + (y c - y b)\<^sup>2)"
    by (rule real_sqrt_sum_squares_triangle_ineq)
  then show ?thesis
    by (simp add: chord_def Let_def power2_eq_square)
qed

text \<open>A chord is no longer than any polyline between its end points.\<close>

lemma chord_polyline:
  fixes Q :: "nat \<Rightarrow> real Point"
  shows "chord (Q lo) (Q (lo + r)) \<le> (\<Sum>j = lo..<lo + r. chord (Q j) (Q (j + 1)))"
proof (induction r)
  case 0
  show ?case by (simp add: chord_def)
next
  case (Suc r)
  have "chord (Q lo) (Q (lo + Suc r)) \<le> chord (Q lo) (Q (lo + r)) + chord (Q (lo + r)) (Q (lo + Suc r))"
    by (rule chord_triangle)
  with Suc.IH show ?case by simp
qed

text \<open>Sampling \<open>k\<close> times as finely never shortens the chord sum.\<close>

lemma chord_sum_refine:
  fixes P :: "real \<Rightarrow> real Point"
  assumes n: "0 < n" and k: "0 < k"
  shows "(\<Sum>i<n. chord (P (real i * (1 / real n))) (P ((real i + 1) * (1 / real n))))
       \<le> (\<Sum>j<n * k. chord (P (real j * (1 / real (n * k)))) (P ((real j + 1) * (1 / real (n * k)))))"
proof -
  define Q where "Q j = P (real j * (1 / real (n * k)))" for j
  have coarse: "P (real i * (1 / real n)) = Q (i * k)" for i
    using k by (simp add: Q_def)
  have fine: "P ((real j + 1) * (1 / real (n * k))) = Q (j + 1)" for j
    by (simp add: Q_def add.commute)
  have "(\<Sum>i<n. chord (P (real i * (1 / real n))) (P ((real i + 1) * (1 / real n))))
        = (\<Sum>i<n. chord (Q (i * k)) (Q (i * k + k)))"
  proof (rule sum.cong[OF refl])
    fix i
    have "P ((real i + 1) * (1 / real n)) = P (real (i + 1) * (1 / real n))"
      by (simp add: add.commute)
    also have "\<dots> = Q ((i + 1) * k)"
      by (rule coarse)
    also have "(i + 1) * k = i * k + k"
      by simp
    finally have "P ((real i + 1) * (1 / real n)) = Q (i * k + k)" .
    then show "chord (P (real i * (1 / real n))) (P ((real i + 1) * (1 / real n)))
             = chord (Q (i * k)) (Q (i * k + k))"
      by (simp only: coarse)
  qed
  also have "\<dots> \<le> (\<Sum>i<n. \<Sum>j = i * k..<i * k + k. chord (Q j) (Q (j + 1)))"
    by (rule sum_mono) (rule chord_polyline)
  also have "\<dots> = (\<Sum>j<n * k. chord (Q j) (Q (j + 1)))"
    by (rule sum.nat_group)
  also have "\<dots> = (\<Sum>j<n * k. chord (P (real j * (1 / real (n * k)))) (P ((real j + 1) * (1 / real (n * k)))))"
    by (simp only: fine) (simp only: Q_def)
  finally show ?thesis .
qed

text \<open>The loops as sums.\<close>

lemma cubicArcLoop_sum:
  "cubicArcLoop cv samples dt i len =
     len + (\<Sum>j = i..<nat \<lceil>samples\<rceil>.
              chord (cubicBezierPoint cv (real j * dt)) (cubicBezierPoint cv ((real j + 1) * dt)))"
proof (induction cv samples dt i len rule: cubicArcLoop.induct)
  case (1 cv samples dt i len)
  show ?case
  proof (cases "real i < samples")
    case True
    then have "i < nat \<lceil>samples\<rceil>" by (rule loop_index_below)
    with True 1 show ?thesis
      by (subst cubicArcLoop.simps) (simp add: Let_def sum.atLeast_Suc_lessThan)
  next
    case False
    then have "nat \<lceil>samples\<rceil> \<le> i" by linarith
    with False show ?thesis by (subst cubicArcLoop.simps) simp
  qed
qed

lemma quadraticArcLoop_sum:
  "quadraticArcLoop cv samples dt i len =
     len + (\<Sum>j = i..<nat \<lceil>samples\<rceil>.
              chord (quadraticBezierPoint cv (real j * dt)) (quadraticBezierPoint cv ((real j + 1) * dt)))"
proof (induction cv samples dt i len rule: quadraticArcLoop.induct)
  case (1 cv samples dt i len)
  show ?case
  proof (cases "real i < samples")
    case True
    then have "i < nat \<lceil>samples\<rceil>" by (rule loop_index_below)
    with True 1 show ?thesis
      by (subst quadraticArcLoop.simps) (simp add: Let_def sum.atLeast_Suc_lessThan)
  next
    case False
    then have "nat \<lceil>samples\<rceil> \<le> i" by linarith
    with False show ?thesis by (subst quadraticArcLoop.simps) simp
  qed
qed

lemma bezierArcLength_sum:
  "bezierArcLength cv (real n) =
     (\<Sum>j<n. chord (bezierPoint cv (real j * (1 / real n))) (bezierPoint cv ((real j + 1) * (1 / real n))))"
  by (cases cv)
     (simp_all add: cubicBezierArcLength_def quadraticBezierArcLength_def cubicArcLoop_sum
        quadraticArcLoop_sum Let_def atLeast0LessThan)

lemma archQuadratic_two_samples: "bezierArcLength (Quadratic archQuadratic) 2 = 2"
  by (simp add: quadraticBezierArcLength_def quadraticArcLoop.simps quadraticBezierPoint_def
      archQuadratic_def chord_vertical Let_def)

lemma archQuadratic_three_samples: "bezierArcLength (Quadratic archQuadratic) 3 = 16/9"
  by (simp add: quadraticBezierArcLength_def quadraticArcLoop.simps quadraticBezierPoint_def
      archQuadratic_def chord_vertical Let_def)

text \<open>
  C7 (as stated). The chord sum is not monotone in the sample count: the quadratic with
  control points (0,0), (0,2), (0,0) has length 2 with two samples (the sample at 1/2 is the
  apex) and 16/9 with three.
\<close>

theorem bezierArcLength_monotone_counterexample:
  "(0::nat) < 2 \<and> (2::nat) \<le> 3 \<and>
   \<not> bezierArcLength (Quadratic archQuadratic) (real (3::nat))
       \<ge> bezierArcLength (Quadratic archQuadratic) (real (2::nat))"
  using archQuadratic_two_samples archQuadratic_three_samples by simp

text \<open>
  C7 (amended). In exact arithmetic (the chord sum over the real numbers, no operation
  rounded to a double): for every curve and positive sample counts \<open>n\<close> and \<open>k\<close>,
  sampling with \<open>n * k\<close> samples gives at least the length that \<open>n\<close> samples give, so the
  approximation is non-decreasing along refinements of the sampling by whole factors.
\<close>

theorem bezierArcLength_refine:
  "0 < n \<and> 0 < k \<longrightarrow> bezierArcLength cv (real n) \<le> bezierArcLength cv (real (n * k))"
  using chord_sum_refine [of n k "bezierPoint cv"] by (simp only: bezierArcLength_sum) blast

theorem bezierArcLength_refine_witness:
  "(0::nat) < 3 \<and> (0::nat) < 2 \<and>
   bezierArcLength (Quadratic archQuadratic) (real (3::nat))
     \<le> bezierArcLength (Quadratic archQuadratic) (real (3 * 2 :: nat))"
  using bezierArcLength_refine [of 3 2 "Quadratic archQuadratic"] by simp

subsection \<open>Look-up table\<close>

lemma lutLoop_total_nonneg:
  "0 \<le> totalLen \<Longrightarrow> 0 \<le> snd (lutLoop cv numSamples dt i es totalLen)"
proof (induction cv numSamples dt i es totalLen rule: lutLoop.induct)
  case (1 cv numSamples dt i es totalLen)
  show ?case
  proof (cases "i \<le> numSamples")
    case True
    then show ?thesis
      using 1 by (subst lutLoop.simps) (simp add: Let_def chord_nonneg)
  next
    case False
    then show ?thesis
      using 1 by (subst lutLoop.simps) simp
  qed
qed

lemma totalLength_nonneg: "0 \<le> totalLength (createBezierLUT cv res)"
  using lutLoop_total_nonneg[of 0 cv "max 10 \<lceil>bezierArcLength cv 10 * res\<rceil>"
      "1 / of_int (max 10 \<lceil>bezierArcLength cv 10 * res\<rceil>)" 0 "[]"]
  by (simp add: createBezierLUT_def Let_def split_beta)

lemma lineCubic_0_point: "cubicBezierPoint (lineCubic 0) t = \<lparr>x = 0, y = 0\<rparr>"
  by (simp add: cubicBezierPoint_def lineCubic_def)

lemma lineCubic_0_length: "cubicBezierArcLength (lineCubic 0) 10 = 0"
  by (simp add: cubicBezierArcLength_def cubicArcLoop.simps lineCubic_0_point chord_same)

text \<open>The table of a curve of length zero: eleven entries, total length 0.\<close>

lemma lineCubic_0_LUT:
  "totalLength (createBezierLUT (Cubic (lineCubic 0)) 1) = 0 \<and>
   length (entries (createBezierLUT (Cubic (lineCubic 0)) 1)) = 11"
  by (simp add: createBezierLUT_def lineCubic_0_length lutLoop.simps lineCubic_0_point chord_same Let_def)

lemma lineCubic_1_point: "cubicBezierPoint (lineCubic 1) t = \<lparr>x = t * t * t, y = 0\<rparr>"
  by (simp add: cubicBezierPoint_def lineCubic_def)

lemma lineCubic_1_length: "cubicBezierArcLength (lineCubic 1) 10 = 1"
  by (simp add: cubicBezierArcLength_def cubicArcLoop.simps lineCubic_1_point chord_horizontal)

lemma lineCubic_1_LUT: "totalLength (createBezierLUT (Cubic (lineCubic 1)) 1) = 1"
  by (simp add: createBezierLUT_def lineCubic_1_length lutLoop.simps lineCubic_1_point chord_horizontal)

text \<open>
  C3 (as stated). For the table of a curve of length zero, \<open>lut.totalLength\<close> is 0 and
  \<open>lengthToParameter(lut, lut.totalLength)\<close> is 0, not 1: the test \<open>targetLength \<le> 0\<close> comes
  first.
\<close>

theorem lengthToParameter_degenerate_counterexample:
  "lengthToParameter (createBezierLUT (Cubic (lineCubic 0)) 1)
     (totalLength (createBezierLUT (Cubic (lineCubic 0)) 1)) \<noteq> Inr 1"
  by (simp add: lineCubic_0_LUT lengthToParameter_def)

text \<open>
  C3 (amended). For every table built by \<open>createBezierLUT\<close>: \<open>lengthToParameter\<close> returns 0
  when the target length is at most 0, and returns 1 when the target length is positive and
  at least \<open>lut.totalLength\<close>. In particular it returns 0 at 0, and at \<open>lut.totalLength\<close> it
  returns 1 unless the total length is 0 (a curve of length zero), where it returns 0.
\<close>

theorem lengthToParameter_bounds:
  "(lo \<le> 0 \<longrightarrow> lengthToParameter (createBezierLUT cv res) lo = Inr 0) \<and>
   (0 < hi \<and> totalLength (createBezierLUT cv res) \<le> hi \<longrightarrow>
      lengthToParameter (createBezierLUT cv res) hi = Inr 1) \<and>
   lengthToParameter (createBezierLUT cv res) 0 = Inr 0 \<and>
   lengthToParameter (createBezierLUT cv res) (totalLength (createBezierLUT cv res)) =
     (if totalLength (createBezierLUT cv res) = 0 then Inr 0 else Inr 1)"
  using totalLength_nonneg[of cv res] by (simp add: lengthToParameter_def)

theorem lengthToParameter_bounds_witness:
  "(- 1 :: real) \<le> 0 \<and>
   lengthToParameter (createBezierLUT (Cubic (lineCubic 1)) 1) (- 1) = Inr 0 \<and>
   (0 :: real) < 1 \<and> totalLength (createBezierLUT (Cubic (lineCubic 1)) 1) \<le> 1 \<and>
   lengthToParameter (createBezierLUT (Cubic (lineCubic 1)) 1) 1 = Inr 1"
  using lengthToParameter_bounds [of "- 1" "Cubic (lineCubic 1)" 1 1] lineCubic_1_LUT by simp

section \<open>Properties of the easing functions and the timeline\<close>

text \<open>
  C9. \<open>applyEasing\<close> has no failing branch, and falls back to the identity for every
  specification it does not recognise: for every \<open>t\<close>, a name other than \<open>linear\<close> and
  \<open>easeInOutCubic\<close> gives \<open>t\<close> (as \<open>linear\<close> does), an array whose length is not 4 gives
  \<open>t\<close>, and so does a value that is neither a string nor an array.
\<close>

theorem applyEasing_fallback:
  "(name \<noteq> ''linear'' \<and> name \<noteq> ''easeInOutCubic'' \<longrightarrow>
      applyEasing t (EasingName name) = t \<and>
      applyEasing t (EasingName name) = applyEasing t (EasingName ''linear'')) \<and>
   (length arr \<noteq> 4 \<longrightarrow> applyEasing t (EasingArray arr) = t) \<and>
   applyEasing t EasingOther = t"
  by (simp add: easing_linear_def)

theorem applyEasing_fallback_witness:
  "''nonexistent-name'' \<noteq> ''linear'' \<and> ''nonexistent-name'' \<noteq> ''easeInOutCubic'' \<and>
   applyEasing (Fin (1/4)) (EasingName ''nonexistent-name'') = Fin (1/4) \<and>
   applyEasing (Fin (1/4)) (EasingName ''nonexistent-name'')
     = applyEasing (Fin (1/4)) (EasingName ''linear'') \<and>
   length [Fin 0, Fin 1] \<noteq> 4 \<and>
   applyEasing (Fin (1/4)) (EasingArray [Fin 0, Fin 1]) = Fin (1/4)"
  using applyEasing_fallback [of "''nonexistent-name''" "Fin (1/4)" "[Fin 0, Fin 1]"] by simp

subsection \<open>The loop count with rounding\<close>

lemma pow2_powr: "pow2 e = 2 powr (of_int e)"
proof (cases "0 \<le> e")
  case True
  then have "(2::real) powr (of_int e) = 2 powr (real (nat e))" by simp
  also have "\<dots> = 2 ^ nat e" by (rule powr_realpow) simp
  finally show ?thesis using True by (simp add: pow2_def)
next
  case False
  then have "(2::real) powr (of_int e) = 2 powr (- real (nat (- e)))" by simp
  also have "\<dots> = 1 / 2 powr (real (nat (- e)))" by (simp add: powr_minus_divide)
  also have "\<dots> = 1 / 2 ^ nat (- e)" by (simp add: powr_realpow)
  finally show ?thesis using False by (simp add: pow2_def)
qed

text \<open>Rounding a number between two neighbouring powers of two.\<close>

lemma roundToDouble_binade:
  assumes "pow2 e \<le> v" and "v < pow2 (e + 1)"
  shows "roundToDouble v = of_int (roundHalfEven (v / pow2 (e - 52))) * pow2 (e - 52)"
proof -
  have pos: "0 < v"
    using assms(1) by (simp add: pow2_powr) (smt (verit) powr_gt_zero)
  then have "\<lfloor>log 2 v\<rfloor> = e"
    using assms by (simp add: floor_log_eq_powr_iff pow2_powr)
  with pos show ?thesis
    by (simp add: roundToDouble_def Let_def)
qed

lemma double_of_0_7: "roundToDouble (7/10) = double_0_7"
  by (subst roundToDouble_binade[of "- 1"])
     (simp_all add: pow2_def roundHalfEven_def double_0_7_def Let_def)

lemma double_of_2_8: "roundToDouble (28/10) = 4 * double_0_7"
  by (subst roundToDouble_binade[of 1])
     (simp_all add: pow2_def roundHalfEven_def double_0_7_def Let_def)

lemma rounded_elapsed: "roundToDouble (4 * double_0_7 - double_0_7) = 4728779608739020 / 2 ^ 51"
  by (subst roundToDouble_binade[of 1])
     (simp_all add: pow2_def roundHalfEven_def double_0_7_def Let_def)

lemma rounded_quotient:
  "roundToDouble (4728779608739020 / 2 ^ 51 / double_0_7) = 6755399441055743 / 2 ^ 51"
  by (subst roundToDouble_binade[of 1])
     (simp_all add: pow2_def roundHalfEven_def double_0_7_def Let_def)

lemma double_of_1: "roundToDouble 1 = 1"
  by (subst roundToDouble_binade[of 0])
     (simp_all add: pow2_def roundHalfEven_def Let_def)

lemma double_of_1000: "roundToDouble 1000 = 1000"
  by (subst roundToDouble_binade[of 9])
     (simp_all add: pow2_def roundHalfEven_def Let_def)

text \<open>
  C5 (as stated). With the rounding of doubles the loop count does not reach \<open>k\<close> at every
  \<open>k\<close>-th multiple of the duration: for \<^verbatim>\<open>startTime = 0.7\<close>, \<^verbatim>\<open>duration = 0.7\<close> and
  \<^verbatim>\<open>currentTime = 2.8\<close>, which as doubles is exactly the start time plus three durations,
  the difference is rounded to a number below three durations, the quotient to a number
  below 3, and \<^verbatim>\<open>loopCount\<close> is 2.
\<close>

theorem loopCount_rounding_counterexample:
  "roundToDouble (7/10) = double_0_7 \<and>
   roundToDouble (28/10) = double_0_7 + 3 * double_0_7 \<and>
   loopCountDouble double_0_7 (double_0_7 + 3 * double_0_7) double_0_7 = 2"
proof -
  have four: "double_0_7 + 3 * double_0_7 = 4 * double_0_7"
    by simp
  have "loopCountDouble double_0_7 (4 * double_0_7) double_0_7
        = \<lfloor>roundToDouble (roundToDouble (4 * double_0_7 - double_0_7) / double_0_7)\<rfloor>"
    by (simp only: loopCountDouble_def Let_def)
  also have "\<dots> = \<lfloor>(6755399441055743 / 2 ^ 51 :: real)\<rfloor>"
    by (simp only: rounded_elapsed rounded_quotient)
  also have "\<dots> = 2"
    by simp
  finally show ?thesis
    by (simp only: four double_of_0_7 double_of_2_8 simp_thms)
qed

subsection \<open>The timeline in exact arithmetic\<close>

lemma trunc_of_nat [simp]: "trunc (real k) = int k"
  by (simp add: trunc_def)

text \<open>
  C5 (amended). For a playing timeline with direction forward and a duration \<open>d > 0\<close>,
  without easing: when the elapsed time \<open>currentTime - startTime\<close> is exactly \<open>d\<close>, the
  progress is exactly 1 if the timeline does not loop and exactly 0 if it loops, and if it
  loops \<open>updateTimeline\<close> at that instant sets \<open>loopCount\<close> to 1; the loop count is 1 also
  with the rounding of doubles, whenever the rounded difference is the duration. In exact
  arithmetic (differences and quotients not rounded), \<open>updateTimeline\<close> at any time \<open>c'\<close>
  sets \<open>loopCount\<close> to the floor of \<open>(c' - startTime) / d\<close>, which at the \<open>k\<close>-th multiple
  of the duration is \<open>k\<close>.
\<close>

theorem timeline_at_duration:
  "(isPlaying timeline \<and> direction timeline = Forward \<and> 0 < d \<and> duration timeline = Fin d \<and>
    startTime timeline = Fin s \<and> currentTime timeline = Fin c \<and> c - s = d \<longrightarrow>
      getTimelineProgress timeline None = (if loop timeline then Fin 0 else Fin 1) \<and>
      (loop timeline \<longrightarrow>
         loopCount (updateTimeline timeline (currentTime timeline)) = Fin 1 \<and>
         (\<forall>c'. loopCount (updateTimeline timeline (Fin c')) = Fin (of_int \<lfloor>(c' - s) / d\<rfloor>)) \<and>
         (\<forall>k::nat. loopCount (updateTimeline timeline (Fin (s + real k * d))) = Fin (real k)))) \<and>
   (0 < d \<and> roundToDouble (c - s) = d \<longrightarrow> loopCountDouble s c d = 1)"
proof -
  have "loopCountDouble s c d = 1" if "0 < d" "roundToDouble (c - s) = d"
    using that by (simp add: loopCountDouble_def Let_def double_of_1)
  then show ?thesis
    by (auto simp: getTimelineProgress_def updateTimeline_def applyDirection_def Let_def
        minus_jsnum_def Math_min_def Math_max_def trunc_def)
qed

theorem timeline_at_duration_witness:
  "isPlaying loopingTimeline \<and> direction loopingTimeline = Forward \<and> (0::real) < 1000 \<and>
   duration loopingTimeline = Fin 1000 \<and> startTime loopingTimeline = Fin 100 \<and>
   currentTime loopingTimeline = Fin 1100 \<and> (1100::real) - 100 = 1000 \<and>
   loop loopingTimeline \<and>
   getTimelineProgress loopingTimeline None = Fin 0 \<and>
   loopCount (updateTimeline loopingTimeline (Fin 1100)) = Fin 1 \<and>
   loopCount (updateTimeline loopingTimeline (Fin (100 + real (3::nat) * 1000))) = Fin (real (3::nat)) \<and>
   isPlaying singleTimeline \<and> direction singleTimeline = Forward \<and>
   duration singleTimeline = Fin 1000 \<and> startTime singleTimeline = Fin 100 \<and>
   currentTime singleTimeline = Fin 1100 \<and> \<not> loop singleTimeline \<and>
   getTimelineProgress singleTimeline None = Fin 1 \<and>
   roundToDouble (1100 - 100) = 1000 \<and>
   loopCountDouble 100 1100 1000 = 1"
  using timeline_at_duration [of loopingTimeline 1000 100 1100]
    timeline_at_duration [of singleTimeline 1000 100 1100]
  by (simp add: loopingTimeline_def singleTimeline_def double_of_1000)

text \<open>
  C10. For every timeline state that is not playing, \<open>getTimelineProgress\<close> returns 0,
  whatever the times, direction, loop flag and easing are. \<open>stopTimeline\<close> keeps
  \<open>startTime\<close> and \<open>currentTime\<close>, and the progress of the stopped timeline is 0.
\<close>

theorem stopped_progress_zero:
  "(\<not> isPlaying timeline \<longrightarrow> getTimelineProgress timeline easing = Fin 0) \<and>
   getTimelineProgress (stopTimeline timeline) easing = Fin 0 \<and>
   startTime (stopTimeline timeline) = startTime timeline \<and>
   currentTime (stopTimeline timeline) = currentTime timeline"
  by (simp add: getTimelineProgress_def stopTimeline_def)

theorem stopped_progress_zero_witness:
  "\<not> isPlaying (loopingTimeline\<lparr>isPlaying := False\<rparr>) \<and>
   getTimelineProgress (loopingTimeline\<lparr>isPlaying := False\<rparr>) (Some (EasingName ''easeInOutCubic'')) = Fin 0 \<and>
   getTimelineProgress singleTimeline None = Fin 1 \<and>
   getTimelineProgress (stopTimeline singleTimeline) None = Fin 0 \<and>
   currentTime (stopTimeline singleTimeline) = Fin 1100"
  using stopped_progress_zero [of "loopingTimeline\<lparr>isPlaying := False\<rparr>" "Some (EasingName ''easeInOutCubic'')"]
    stopped_progress_zero [of singleTimeline None]
  by (simp add: loopingTimeline_def singleTimeline_def getTimelineProgress_def applyDirection_def
      minus_jsnum_def Math_min_def Math_max_def)

section \<open>Properties of the path parser\<close>

lemmas char_class_defs = isCommandChar_def isWhiteSpace_def isSeparator_def isDigit_def toUpperCase_def

lemmas number_literal_defs = tokenArg_def parseFloat_def splitSign_def exponentPart_def scale10_def
  digitsValue_def digitValue_def

lemmas command_defs = parseCommand_def forArgs_def argIndices_def moveTo_def lineTo_def closePath_def
  targetPoint_def pushSegment_def argAt_def

lemmas bounds_defs = calculatePathBounds_def includeSegment_def includePoint_def Math_min_def
  Math_max_def strictEq_def

subsection \<open>A closed square path\<close>

lemma square_tokens:
  "tokenizePath ''M 0 0 L 10 0 L 10 10 Z'' =
     [(CHR ''M'', [Fin 0, Fin 0]), (CHR ''L'', [Fin 10, Fin 0]), (CHR ''L'', [Fin 10, Fin 10]),
      (CHR ''Z'', [])]"
  by (simp add: tokenizePath.simps splitArgs.simps char_class_defs trim_def number_literal_defs Let_def)

lemma square_segments:
  "parsePathData ''M 0 0 L 10 0 L 10 10 Z'' =
     [\<lparr>type = SegM, points = [\<lparr>x = Fin 0, y = Fin 0\<rparr>], curve = None\<rparr>,
      \<lparr>type = SegL, points = [\<lparr>x = Fin 10, y = Fin 0\<rparr>], curve = None\<rparr>,
      \<lparr>type = SegL, points = [\<lparr>x = Fin 10, y = Fin 10\<rparr>], curve = None\<rparr>,
      \<lparr>type = SegZ, points = [], curve = None\<rparr>]"
  by (simp add: parsePathData_def square_tokens command_defs toUpperCase_def Let_def)

lemma sqrt_100: "sqrt 100 = 10"
  using real_sqrt_abs[of 10] by simp

text \<open>
  C4. \<open>createPathData\<close> of \<open>M 0 0 L 10 0 L 10 10 Z\<close> returns exactly four segments, of
  types M, L, L, Z in this order, the bounding box (0, 0, 10, 10) and the total length 20:
  the two lines contribute 10 each and the closing segment, which has no point, nothing.
\<close>

theorem createPathData_square:
  "createPathData ''M 0 0 L 10 0 L 10 10 Z'' =
     Inr \<lparr>segments =
            [\<lparr>type = SegM, points = [\<lparr>x = Fin 0, y = Fin 0\<rparr>], curve = None\<rparr>,
             \<lparr>type = SegL, points = [\<lparr>x = Fin 10, y = Fin 0\<rparr>], curve = None\<rparr>,
             \<lparr>type = SegL, points = [\<lparr>x = Fin 10, y = Fin 10\<rparr>], curve = None\<rparr>,
             \<lparr>type = SegZ, points = [], curve = None\<rparr>],
          pathTotalLength = Fin 20,
          bounds = \<lparr>minX = Fin 0, minY = Fin 0, maxX = Fin 10, maxY = Fin 10\<rparr>\<rparr>"
  by (simp add: createPathData_def square_segments normalizeSegment_def bounds_defs
      addSegmentLength_def minus_jsnum_def sqrt_100 Let_def)

subsection \<open>The parser never fails\<close>

lemma accepted_plain: "ty \<noteq> SegQ \<Longrightarrow> accepted \<lparr>type = ty, points = ps, curve = cv\<rparr>"
  by (simp add: accepted_def normalizeSegment_def)

lemma accepted_quadratic: "accepted \<lparr>type = ty, points = ps, curve = Some (Quadratic q)\<rparr>"
  by (simp add: accepted_def normalizeSegment_def Let_def)

lemma pushSegment_accepted:
  "accepted seg \<Longrightarrow> acceptedState st \<Longrightarrow> acceptedState (pushSegment seg cur ctl st)"
  by (simp add: acceptedState_def pushSegment_def)

lemma forArgs_invariant:
  assumes step: "\<And>i st. P st \<Longrightarrow> P (body i st)" and init: "P st"
  shows "P (forArgs k args body st)"
proof -
  have "P (foldl (\<lambda>st' i. body i st') st is)" for "is"
    using init by (induction "is" arbitrary: st) (simp_all add: step)
  then show ?thesis by (simp add: forArgs_def)
qed

lemma moveTo_accepted: "acceptedState st \<Longrightarrow> acceptedState (moveTo args r i st)"
  by (simp add: moveTo_def Let_def pushSegment_accepted accepted_plain)

lemma lineTo_accepted: "acceptedState st \<Longrightarrow> acceptedState (lineTo args r i st)"
  by (simp add: lineTo_def Let_def pushSegment_accepted accepted_plain)

lemma horizontalTo_accepted: "acceptedState st \<Longrightarrow> acceptedState (horizontalTo args r i st)"
  by (simp add: horizontalTo_def Let_def pushSegment_accepted accepted_plain)

lemma verticalTo_accepted: "acceptedState st \<Longrightarrow> acceptedState (verticalTo args r i st)"
  by (simp add: verticalTo_def Let_def pushSegment_accepted accepted_plain)

lemma cubicTo_accepted: "acceptedState st \<Longrightarrow> acceptedState (cubicTo args r i st)"
  by (simp add: cubicTo_def Let_def pushSegment_accepted accepted_plain)

lemma smoothCubicTo_accepted: "acceptedState st \<Longrightarrow> acceptedState (smoothCubicTo args r i st)"
  by (simp add: smoothCubicTo_def Let_def pushSegment_accepted accepted_plain)

lemma quadraticTo_accepted: "acceptedState st \<Longrightarrow> acceptedState (quadraticTo args r i st)"
  by (simp add: quadraticTo_def Let_def pushSegment_accepted accepted_quadratic)

lemma smoothQuadraticTo_accepted: "acceptedState st \<Longrightarrow> acceptedState (smoothQuadraticTo args r i st)"
  by (simp add: smoothQuadraticTo_def Let_def pushSegment_accepted accepted_quadratic)

lemma arcTo_accepted: "acceptedState st \<Longrightarrow> acceptedState (arcTo args r i st)"
  by (simp add: arcTo_def Let_def pushSegment_accepted accepted_plain)

lemma closePath_accepted: "acceptedState st \<Longrightarrow> acceptedState (closePath st)"
  by (simp add: closePath_def acceptedState_def accepted_plain)

lemmas command_accepted =
  moveTo_accepted lineTo_accepted horizontalTo_accepted verticalTo_accepted cubicTo_accepted
  smoothCubicTo_accepted quadraticTo_accepted smoothQuadraticTo_accepted arcTo_accepted

lemma parseCommand_accepted:
  assumes "acceptedState st"
  shows "acceptedState (parseCommand st command)"
proof -
  obtain ty args where command: "command = (ty, args)" by (cases command)
  have loop: "acceptedState (forArgs k args body st)"
    if "\<And>i st. acceptedState st \<Longrightarrow> acceptedState (body i st)" for k body
    using that assms by (rule forArgs_invariant)
  show ?thesis
    unfolding command parseCommand_def Let_def prod.case
    by (simp only: if_split loop command_accepted closePath_accepted assms simp_thms)
qed

lemma parsePathData_accepted: "list_all accepted (parsePathData pathString)"
proof -
  have "acceptedState (foldl parseCommand st cmds)" if "acceptedState st" for st cmds
    using that by (induction cmds arbitrary: st) (simp_all add: parseCommand_accepted)
  then show ?thesis by (simp add: parsePathData_def acceptedState_def)
qed

lemma normalizeToCubicBeziers_accepted:
  "list_all accepted segs \<Longrightarrow> \<exists>normalized. normalizeToCubicBeziers segs = Inr normalized"
  by (induction segs) (auto simp: accepted_def)





subsection \<open>Quadratic segments become equivalent cubics\<close>

lemma elevation_identity:
  fixes t s c e :: real
  shows "(1 - t) * (1 - t) * (1 - t) * s + 3 * (1 - t) * (1 - t) * t * (s + 2/3 * (c - s)) +
         3 * (1 - t) * t * t * (e + 2/3 * (c - e)) + t * t * t * e
       = (1 - t) * (1 - t) * s + 2 * (1 - t) * t * c + t * t * e"
  by algebra

lemma specElevatedCubic_point:
  "cubicBezierPoint (specElevatedCubic q) t = quadraticBezierPoint q t"
  by (simp only: cubicBezierPoint_def quadraticBezierPoint_def specElevatedCubic_def Let_def
      CubicBezierCurve.simps Point.simps elevation_identity)

text \<open>The result has one segment for each segment, the normalised segment at the same index.\<close>

lemma normalizeToCubicBeziers_nth:
  "normalizeToCubicBeziers segs = Inr out \<Longrightarrow>
     length out = length segs \<and> (\<forall>i < length segs. normalizeSegment (segs ! i) = Inr (out ! i))"
proof (induction segs arbitrary: out)
  case Nil
  then show ?case by simp
next
  case (Cons seg segs)
  from Cons.prems obtain seg' rest where seg: "normalizeSegment seg = Inr seg'"
    and rest: "normalizeToCubicBeziers segs = Inr rest" and out: "out = seg' # rest"
    by (auto split: sum.splits)
  from Cons.IH[OF rest] have len: "length rest = length segs"
    and nth: "\<And>i. i < length segs \<Longrightarrow> normalizeSegment (segs ! i) = Inr (rest ! i)"
    by simp_all
  show ?case
  proof (intro conjI allI impI)
    show "length out = length (seg # segs)" by (simp add: out len)
  next
    fix i assume "i < length (seg # segs)"
    then show "normalizeSegment ((seg # segs) ! i) = Inr (out ! i)"
      by (cases i) (simp_all add: out seg nth)
  qed
qed

lemma normalizeSegment_quadratic:
  "normalizeSegment \<lparr>type = SegQ, points = ps, curve = Some (Quadratic (liftQuadratic q))\<rparr> =
     Inr \<lparr>type = SegC, points = [liftPoint (qendp q)],
          curve = Some (Cubic (liftCubic (specElevatedCubic q)))\<rparr>"
  by (simp add: normalizeSegment_def liftQuadratic_def liftCubic_def liftPoint_def
      specElevatedCubic_def minus_jsnum_def Let_def)

lemma normalizeSegment_other: "type seg \<noteq> SegQ \<Longrightarrow> normalizeSegment seg = Inr seg"
  by (simp add: normalizeSegment_def)

lemma hill_tokens:
  "tokenizePath ''M 0 0 Q 1 1 2 0'' =
     [(CHR ''M'', [Fin 0, Fin 0]), (CHR ''Q'', [Fin 1, Fin 1, Fin 2, Fin 0])]"
  by (simp add: tokenizePath.simps splitArgs.simps char_class_defs trim_def number_literal_defs Let_def)

lemma hill_segments:
  "parsePathData ''M 0 0 Q 1 1 2 0'' =
     [\<lparr>type = SegM, points = [\<lparr>x = Fin 0, y = Fin 0\<rparr>], curve = None\<rparr>,
      \<lparr>type = SegQ, points = [\<lparr>x = Fin 2, y = Fin 0\<rparr>],
       curve = Some (Quadratic (liftQuadratic hillQuadratic))\<rparr>]"
  by (simp add: parsePathData_def hill_tokens command_defs quadraticTo_def toUpperCase_def Let_def
      liftQuadratic_def liftPoint_def hillQuadratic_def)

lemma hill_normalized:
  "normalizeToCubicBeziers (parsePathData ''M 0 0 Q 1 1 2 0'') =
     Inr [\<lparr>type = SegM, points = [\<lparr>x = Fin 0, y = Fin 0\<rparr>], curve = None\<rparr>,
          \<lparr>type = SegC, points = [\<lparr>x = Fin 2, y = Fin 0\<rparr>],
           curve = Some (Cubic
             \<lparr>start = \<lparr>x = Fin 0, y = Fin 0\<rparr>, control1 = \<lparr>x = Fin (2/3), y = Fin (2/3)\<rparr>,
              control2 = \<lparr>x = Fin (4/3), y = Fin (2/3)\<rparr>, endp = \<lparr>x = Fin 2, y = Fin 0\<rparr>\<rparr>)\<rparr>]"
  by (simp add: hill_segments normalizeSegment_def liftQuadratic_def liftPoint_def hillQuadratic_def
      minus_jsnum_def Let_def)

text \<open>
  C6. Wherever a quadratic curve with finite coordinates stands in a list of segments (at
  any index \<open>i\<close>), \<open>normalizeToCubicBeziers\<close> puts at the same index a cubic segment whose
  curve is the one the specification prescribes (control1 = start + 2/3 (control - start),
  control2 = end + 2/3 (control - end)), and that cubic has the same point as the quadratic
  at every parameter \<open>t\<close> (in particular for \<open>t\<close> in [0,1]). The result is as long as the
  list, a segment of another type is kept as it is, and on the segments of a parsed path the
  function returns.
\<close>

theorem quadratic_elevation:
  "(normalizeToCubicBeziers segs = Inr out \<and> i < length segs \<and>
    segs ! i = \<lparr>type = SegQ, points = ps, curve = Some (Quadratic (liftQuadratic q))\<rparr> \<longrightarrow>
      length out = length segs \<and>
      out ! i = \<lparr>type = SegC, points = [liftPoint (qendp q)],
                 curve = Some (Cubic (liftCubic (specElevatedCubic q)))\<rparr>) \<and>
   (normalizeToCubicBeziers segs = Inr out \<and> j < length segs \<and> type (segs ! j) \<noteq> SegQ \<longrightarrow>
      out ! j = segs ! j) \<and>
   (\<exists>normalized. normalizeToCubicBeziers (parsePathData pathString) = Inr normalized) \<and>
   (\<forall>t. cubicBezierPoint (specElevatedCubic q) t = quadraticBezierPoint q t)"
proof -
  have "length out = length segs \<and>
        out ! i = \<lparr>type = SegC, points = [liftPoint (qendp q)],
                   curve = Some (Cubic (liftCubic (specElevatedCubic q)))\<rparr>"
    if "normalizeToCubicBeziers segs = Inr out" "i < length segs"
      "segs ! i = \<lparr>type = SegQ, points = ps, curve = Some (Quadratic (liftQuadratic q))\<rparr>"
    using normalizeToCubicBeziers_nth[OF that(1)] that(2,3) normalizeSegment_quadratic[of ps q]
    by auto
  moreover have "out ! j = segs ! j"
    if "normalizeToCubicBeziers segs = Inr out" "j < length segs" "type (segs ! j) \<noteq> SegQ"
    using normalizeToCubicBeziers_nth[OF that(1)] that(2) normalizeSegment_other[OF that(3)]
    by auto
  moreover have "\<exists>normalized. normalizeToCubicBeziers (parsePathData pathString) = Inr normalized"
    by (rule normalizeToCubicBeziers_accepted[OF parsePathData_accepted])
  ultimately show ?thesis
    using specElevatedCubic_point by blast
qed

theorem quadratic_elevation_witness:
  "normalizeToCubicBeziers (parsePathData ''M 0 0 Q 1 1 2 0'') =
     Inr [\<lparr>type = SegM, points = [\<lparr>x = Fin 0, y = Fin 0\<rparr>], curve = None\<rparr>,
          \<lparr>type = SegC, points = [\<lparr>x = Fin 2, y = Fin 0\<rparr>],
           curve = Some (Cubic
             \<lparr>start = \<lparr>x = Fin 0, y = Fin 0\<rparr>, control1 = \<lparr>x = Fin (2/3), y = Fin (2/3)\<rparr>,
              control2 = \<lparr>x = Fin (4/3), y = Fin (2/3)\<rparr>, endp = \<lparr>x = Fin 2, y = Fin 0\<rparr>\<rparr>)\<rparr>] \<and>
   (1::nat) < length (parsePathData ''M 0 0 Q 1 1 2 0'') \<and>
   parsePathData ''M 0 0 Q 1 1 2 0'' ! 1 =
     \<lparr>type = SegQ, points = [\<lparr>x = Fin 2, y = Fin 0\<rparr>],
      curve = Some (Quadratic (liftQuadratic hillQuadratic))\<rparr> \<and>
   [\<lparr>type = SegM, points = [\<lparr>x = Fin 0, y = Fin 0\<rparr>], curve = None\<rparr>,
    \<lparr>type = SegC, points = [\<lparr>x = Fin 2, y = Fin 0\<rparr>],
     curve = Some (Cubic
       \<lparr>start = \<lparr>x = Fin 0, y = Fin 0\<rparr>, control1 = \<lparr>x = Fin (2/3), y = Fin (2/3)\<rparr>,
        control2 = \<lparr>x = Fin (4/3), y = Fin (2/3)\<rparr>, endp = \<lparr>x = Fin 2, y = Fin 0\<rparr>\<rparr>)\<rparr>] ! 1 =
     \<lparr>type = SegC, points = [liftPoint (qendp hillQuadratic)],
      curve = Some (Cubic (liftCubic (specElevatedCubic hillQuadratic)))\<rparr> \<and>
   (0::nat) < length (parsePathData ''M 0 0 Q 1 1 2 0'') \<and>
   type (parsePathData ''M 0 0 Q 1 1 2 0'' ! 0) \<noteq> SegQ \<and>
   cubicBezierPoint (specElevatedCubic hillQuadratic) (1/2) = quadraticBezierPoint hillQuadratic (1/2)"
proof -
  let ?segs = "parsePathData ''M 0 0 Q 1 1 2 0''"
  let ?out = "[\<lparr>type = SegM, points = [\<lparr>x = Fin 0, y = Fin 0\<rparr>], curve = None\<rparr>,
               \<lparr>type = SegC, points = [\<lparr>x = Fin 2, y = Fin 0\<rparr>],
                curve = Some (Cubic
                  \<lparr>start = \<lparr>x = Fin 0, y = Fin 0\<rparr>, control1 = \<lparr>x = Fin (2/3), y = Fin (2/3)\<rparr>,
                   control2 = \<lparr>x = Fin (4/3), y = Fin (2/3)\<rparr>, endp = \<lparr>x = Fin 2, y = Fin 0\<rparr>\<rparr>)\<rparr>]"
  have normalized: "normalizeToCubicBeziers ?segs = Inr ?out"
    by (rule hill_normalized)
  have second: "(1::nat) < length ?segs"
    "?segs ! 1 = \<lparr>type = SegQ, points = [\<lparr>x = Fin 2, y = Fin 0\<rparr>],
                  curve = Some (Quadratic (liftQuadratic hillQuadratic))\<rparr>"
    by (simp_all add: hill_segments)
  have first: "(0::nat) < length ?segs" "type (?segs ! 0) \<noteq> SegQ"
    by (simp_all add: hill_segments)
  from quadratic_elevation [of ?segs ?out 1 "[\<lparr>x = Fin 2, y = Fin 0\<rparr>]" hillQuadratic 0]
    normalized second
  have "?out ! 1 = \<lparr>type = SegC, points = [liftPoint (qendp hillQuadratic)],
                    curve = Some (Cubic (liftCubic (specElevatedCubic hillQuadratic)))\<rparr>"
    and "cubicBezierPoint (specElevatedCubic hillQuadratic) (1/2) = quadraticBezierPoint hillQuadratic (1/2)"
    by blast+
  with normalized second first show ?thesis
    by (intro conjI)
qed

subsection \<open>Argument tokens\<close>
























end
